theory Spec2Isabelle
  imports Main "HOL-Library.Word"
begin

section \<open>Strings and numbers of the host language\<close>

text \<open>
  A JavaScript string is a sequence of 16-bit code units, and \<open>===\<close> on two strings
  compares these sequences. String literals of the source are written with \<open>js\<close>.
\<close>

type_synonym jsstring = "16 word list"

definition js :: "string \<Rightarrow> jsstring" where
  "js s = map (\<lambda>c. of_nat (of_char c)) s"

text \<open>
  \<open>String.prototype.trim\<close> removes the leading and the trailing run of code units that
  are WhiteSpace or LineTerminator in ECMAScript: TAB, LF, VT, FF, CR, SP, NBSP, U+1680,
  U+2000 to U+200A, LS, PS, U+202F, U+205F, U+3000 and the byte-order mark.
\<close>

definition isWhiteSpace :: "16 word \<Rightarrow> bool" where
  "isWhiteSpace c \<longleftrightarrow>
     c = 0x0009 \<or> c = 0x000A \<or> c = 0x000B \<or> c = 0x000C \<or> c = 0x000D \<or> c = 0x0020 \<or>
     c = 0x00A0 \<or> c = 0x1680 \<or> (0x2000 \<le> c \<and> c \<le> 0x200A) \<or>
     c = 0x2028 \<or> c = 0x2029 \<or> c = 0x202F \<or> c = 0x205F \<or> c = 0x3000 \<or> c = 0xFEFF"

definition trim :: "jsstring \<Rightarrow> jsstring" where
  "trim s = rev (dropWhile isWhiteSpace (rev (dropWhile isWhiteSpace s)))"

text \<open>
  The template literals print a test number, a positive integer far below \<open>2^53\<close>, in
  decimal without leading zeros.
\<close>

fun Number_toString :: "nat \<Rightarrow> jsstring" where
  "Number_toString n =
     (if n < 10 then [of_nat (48 + n)]
      else Number_toString (n div 10) @ [of_nat (48 + n mod 10)])"

declare Number_toString.simps [simp del]

text \<open>
  An optional string in a condition: \<open>undefined\<close>, \<open>null\<close> and the empty string are
  falsy, every other string is truthy.
\<close>

definition truthy :: "jsstring option \<Rightarrow> bool" where
  "truthy v = (case v of None \<Rightarrow> False | Some s \<Rightarrow> s \<noteq> [])"

section \<open>Data model\<close>

datatype Language = python | javascript | cpp

record TestCase =
  input :: jsstring
  expectedOutput :: jsstring

record TestSuite =
  testCode :: jsstring
  testCases :: "TestCase list"

datatype Status = passed | failed | running

text \<open>
  The optional fields of \<open>TestResult\<close> are options; a field left out of an object literal
  and a field set to an absent value are both \<open>None\<close>. The fields \<open>input\<close>, \<open>time\<close> and
  \<open>memory\<close> of the result are \<open>res_input\<close>, \<open>res_time\<close> and \<open>res_memory\<close> here, since
  \<open>TestCase\<close> and \<open>Judge0Response\<close> have fields of the same names. The memory figure is
  only copied, never computed with; it is an integer number of kilobytes.
\<close>

record TestResult =
  testNumber :: nat
  status :: Status
  message :: jsstring
  res_input :: "jsstring option"
  expected :: "jsstring option"
  actual :: "jsstring option"
  res_time :: "jsstring option"
  res_memory :: "int option"
  error :: "jsstring option"

record Judge0Response =
  stdout :: "jsstring option"
  stderr :: "jsstring option"
  compile_output :: "jsstring option"
  time :: "jsstring option"
  memory :: "int option"

definition LANGUAGE_IDS :: "Language \<Rightarrow> nat" where
  "LANGUAGE_IDS l = (case l of python \<Rightarrow> 71 | javascript \<Rightarrow> 63 | cpp \<Rightarrow> 54)"

definition languageIds :: "Language \<Rightarrow> nat" where
  "languageIds l = (case l of python \<Rightarrow> 71 | javascript \<Rightarrow> 63 | cpp \<Rightarrow> 54)"

section \<open>Classification of one response\<close>

text \<open>\<open>parseResult\<close> of \<open>client/src/App.tsx\<close>; each early \<open>return\<close> is a branch.\<close>

definition parseResult :: "Judge0Response \<Rightarrow> TestCase \<Rightarrow> nat \<Rightarrow> TestResult" where
  "parseResult result testCase index =
     (let testNumber = index + 1 in
      if truthy (stdout result) \<and> trim (the (stdout result)) = expectedOutput testCase then
        \<lparr>testNumber = testNumber, status = passed,
         message = js ''Test Case '' @ Number_toString testNumber @ js '' Passed'',
         res_input = Some (input testCase), expected = Some (expectedOutput testCase),
         actual = Some (trim (the (stdout result))),
         res_time = time result, res_memory = memory result, error = None\<rparr>
      else if truthy (stderr result) then
        \<lparr>testNumber = testNumber, status = failed,
         message = js ''Test Case '' @ Number_toString testNumber @ js '' Failed - Runtime Error'',
         res_input = None, expected = None, actual = None,
         res_time = None, res_memory = None, error = stderr result\<rparr>
      else if truthy (compile_output result) then
        \<lparr>testNumber = testNumber, status = failed,
         message = js ''Test Case '' @ Number_toString testNumber
                     @ js '' Failed - Compilation Error'',
         res_input = None, expected = None, actual = None,
         res_time = None, res_memory = None, error = compile_output result\<rparr>
      else
        \<lparr>testNumber = testNumber, status = failed,
         message = js ''Test Case '' @ Number_toString testNumber @ js '' Failed - Wrong Answer'',
         res_input = Some (input testCase), expected = Some (expectedOutput testCase),
         actual = Some (if truthy (stdout result) then trim (the (stdout result))
                        else js ''No output''),
         res_time = None, res_memory = None, error = None\<rparr>)"

text \<open>
  The value assigned to \<open>testResult\<close> by the \<open>if\<close>/\<open>else if\<close> chain inside the loop of
  \<open>runCode\<close> in the second version of the component (\<open>unnamed/part_000\<close>), for the
  response \<open>result\<close>, the test case \<open>testCase\<close> and the loop index \<open>i\<close>.
\<close>

definition testResult :: "Judge0Response \<Rightarrow> TestCase \<Rightarrow> nat \<Rightarrow> TestResult" where
  "testResult result testCase i =
     (if truthy (stdout result) \<and> trim (the (stdout result)) = expectedOutput testCase then
        \<lparr>testNumber = i + 1, status = passed,
         message = js ''Test Case '' @ Number_toString (i + 1) @ js '' Passed'',
         res_input = Some (input testCase), expected = Some (expectedOutput testCase),
         actual = Some (trim (the (stdout result))),
         res_time = time result, res_memory = memory result, error = None\<rparr>
      else if truthy (stderr result) then
        \<lparr>testNumber = i + 1, status = failed,
         message = js ''Test Case '' @ Number_toString (i + 1) @ js '' Failed - Runtime Error'',
         res_input = None, expected = None, actual = None,
         res_time = None, res_memory = None, error = stderr result\<rparr>
      else if truthy (compile_output result) then
        \<lparr>testNumber = i + 1, status = failed,
         message = js ''Test Case '' @ Number_toString (i + 1)
                     @ js '' Failed - Compilation Error'',
         res_input = None, expected = None, actual = None,
         res_time = None, res_memory = None, error = compile_output result\<rparr>
      else
        \<lparr>testNumber = i + 1, status = failed,
         message = js ''Test Case '' @ Number_toString (i + 1) @ js '' Failed - Wrong Answer'',
         res_input = Some (input testCase), expected = Some (expectedOutput testCase),
         actual = Some (if truthy (stdout result) then trim (the (stdout result))
                        else js ''No output''),
         res_time = None, res_memory = None, error = None\<rparr>)"

section \<open>The environment of a run\<close>

text \<open>
  The body of the POST request to the judging service. The URL and the headers are the same
  constants in every call and are left out.
\<close>

record Submission =
  language_id :: nat
  source_code :: jsstring
  stdin :: jsstring

text \<open>
  What the \<open>catch\<close> clause receives when the awaited call throws: an object whose
  \<open>message\<close> property is read, and may be absent.
\<close>

record Thrown =
  err_message :: "jsstring option"

text \<open>
  The judging service is outside the program. It is a parameter: the outcome of the
  \<open>k\<close>-th call made so far (counted from 0) with a given body is either a thrown value
  (\<open>Inl\<close>) or the \<open>data\<close> of the response (\<open>Inr\<close>).
\<close>

type_synonym service = "nat \<Rightarrow> Submission \<Rightarrow> Thrown + Judge0Response"

text \<open>
  The table of suites is built from the imported fixture modules; its contents are a
  parameter here. \<open>TEST_CASE_MAP[problem.testCaseFile]?.[language]\<close> is absent when
  either lookup is.
\<close>

definition testSuite ::
  "(jsstring \<rightharpoonup> (Language \<rightharpoonup> TestSuite)) \<Rightarrow> jsstring \<Rightarrow> Language \<Rightarrow> TestSuite option" where
  "testSuite TEST_CASE_MAP testCaseFile language =
     (case TEST_CASE_MAP testCaseFile of None \<Rightarrow> None | Some suites \<Rightarrow> suites language)"

text \<open>\<open>Array.prototype.map\<close> with a callback that also takes the index.\<close>

definition Array_map :: "('a \<Rightarrow> nat \<Rightarrow> 'b) \<Rightarrow> 'a list \<Rightarrow> 'b list" where
  "Array_map f xs = map (\<lambda>(k, x). f x k) (enumerate 0 xs)"

text \<open>
  Three object literals of the loops. \<open>runningSlot\<close> is what the callback of the first
  \<open>map\<close> returns for \<open>index\<close>, in both versions. \<open>waitingSlot\<close> is what the callback
  of the \<open>map\<close> over \<open>cases.slice(i + 1)\<close> returns for \<open>idx\<close> in iteration \<open>i\<close>, and
  \<open>apiError\<close> is the object pushed by the \<open>catch\<close> clause, both in
  \<open>client/src/App.tsx\<close>.
\<close>

definition runningSlot :: "nat \<Rightarrow> TestResult" where
  "runningSlot index =
     \<lparr>testNumber = index + 1, status = running, message = js ''Running...'',
      res_input = None, expected = None, actual = None,
      res_time = None, res_memory = None, error = None\<rparr>"

definition waitingSlot :: "nat \<Rightarrow> nat \<Rightarrow> TestResult" where
  "waitingSlot i idx =
     \<lparr>testNumber = i + idx + 2, status = running, message = js ''Waiting...'',
      res_input = None, expected = None, actual = None,
      res_time = None, res_memory = None, error = None\<rparr>"

definition apiError :: "Thrown \<Rightarrow> nat \<Rightarrow> TestResult" where
  "apiError err i =
     \<lparr>testNumber = i + 1, status = failed,
      message = js ''Test Case '' @ Number_toString (i + 1) @ js '' Failed - API Error'',
      res_input = None, expected = None, actual = None,
      res_time = None, res_memory = None, error = err_message err\<rparr>"

section \<open>What the user can do during a run\<close>

text \<open>
  \<open>runCode\<close> is an async function: at each \<open>await\<close> it gives control back, and event
  handlers of the component can run before it goes on. The Run button is disabled while
  \<open>isRunning\<close> holds, and the editor's handler only sets \<open>code\<close>, which \<open>runCode\<close> has
  already read. The two select boxes are never disabled: choosing another problem or
  another language runs a handler that, among other things, sets the result array to
  \<open>[]\<close>. An interleaving gives, for each loop index, the choices made while the call of
  that iteration is awaited, in order.
\<close>

datatype UserEvent = ProblemChosen nat | LanguageChosen Language

type_synonym interleaving = "nat \<Rightarrow> UserEvent list"

section \<open>The run of \<open>client/src/App.tsx\<close>\<close>

text \<open>
  The component state that \<open>runCode\<close> writes (\<open>results\<close>, \<open>isRunning\<close>), and a log of
  its effects: the texts passed to \<open>alert\<close>, the bodies passed to \<open>axios.post\<close> and the
  arrays that \<open>runCode\<close> itself passes to \<open>setResults\<close>, each in call order.
\<close>

record App =
  results :: "TestResult list"
  isRunning :: bool
  alerts :: "jsstring list"
  posted :: "Submission list"
  published :: "TestResult list list"

definition alert :: "jsstring \<Rightarrow> App \<Rightarrow> App" where
  "alert text st = st\<lparr>alerts := alerts st @ [text]\<rparr>"

definition setIsRunning :: "bool \<Rightarrow> App \<Rightarrow> App" where
  "setIsRunning b st = st\<lparr>isRunning := b\<rparr>"

definition setResults :: "TestResult list \<Rightarrow> App \<Rightarrow> App" where
  "setResults v st = st\<lparr>results := v, published := published st @ [v]\<rparr>"

definition axios_post :: "service \<Rightarrow> Submission \<Rightarrow> App \<Rightarrow> (Thrown + Judge0Response) \<times> App" where
  "axios_post remote body st =
     (remote (length (posted st)) body, st\<lparr>posted := posted st @ [body]\<rparr>)"

text \<open>
  \<open>updateProblem\<close> and \<open>updateLanguage\<close>: of the state modelled here they write the result
  array only (\<open>setResults([])\<close>); the problem index, the language and the code they set
  are not read again by a run that has started. \<open>awaiting\<close> runs the handlers of the
  choices made during one \<open>await\<close>.
\<close>

definition updateProblem :: "nat \<Rightarrow> App \<Rightarrow> App" where
  "updateProblem idx st = st\<lparr>results := []\<rparr>"

definition updateLanguage :: "Language \<Rightarrow> App \<Rightarrow> App" where
  "updateLanguage lang st = st\<lparr>results := []\<rparr>"

definition awaiting :: "UserEvent list \<Rightarrow> App \<Rightarrow> App" where
  "awaiting evs st =
     fold (\<lambda>ev. case ev of ProblemChosen idx \<Rightarrow> updateProblem idx
                          | LanguageChosen lang \<Rightarrow> updateLanguage lang) evs st"

text \<open>
  What one iteration pushes onto \<open>newResults\<close>: the \<open>try\<close> block pushes the
  classification of the response, the \<open>catch\<close> clause pushes the API-error object.
\<close>

definition iterationResult :: "Thrown + Judge0Response \<Rightarrow> TestCase \<Rightarrow> nat \<Rightarrow> TestResult" where
  "iterationResult outcome testCase i =
     (case outcome of
        Inr data \<Rightarrow> parseResult data testCase i
      | Inl err \<Rightarrow> apiError err i)"

text \<open>
  The \<open>for\<close> loop of \<open>runCode\<close>, from index \<open>i\<close> with the local array \<open>newResults\<close>.
  The call is made, the user's choices during the \<open>await\<close> take effect, and then the rest
  of the iteration runs.
\<close>

function runCode_loop ::
  "service \<Rightarrow> interleaving \<Rightarrow> Language \<Rightarrow> jsstring \<Rightarrow> TestCase list \<Rightarrow> nat \<Rightarrow>
   TestResult list \<Rightarrow> App \<Rightarrow> App" where
  "runCode_loop remote events language fullCode cases i newResults st =
     (if i < length cases then
        (case axios_post remote
                \<lparr>language_id = LANGUAGE_IDS language, source_code = fullCode,
                 stdin = input (cases ! i)\<rparr> st of
           (outcome, st1) \<Rightarrow>
             let st2 = awaiting (events i) st1;
                 newResults1 = newResults @ [iterationResult outcome (cases ! i) i];
                 st3 = setResults
                         (newResults1 @
                          Array_map (\<lambda>_ idx. waitingSlot i idx) (drop (i + 1) cases)) st2
             in runCode_loop remote events language fullCode cases (i + 1) newResults1 st3)
      else st)"
  by pat_completeness auto
termination
  by (relation "measure (\<lambda>(remote, events, language, fullCode, cases, i, newResults, st).
                  length cases - i)")
     auto

declare runCode_loop.simps [simp del]

text \<open>
  \<open>runCode\<close>, for the values of \<open>code\<close>, \<open>language\<close> and \<open>testSuite\<close> that the
  closure holds when it is called. Nothing is awaited outside the loop.
\<close>

definition runCode ::
  "service \<Rightarrow> interleaving \<Rightarrow> jsstring \<Rightarrow> Language \<Rightarrow> TestSuite option \<Rightarrow> App \<Rightarrow> App" where
  "runCode remote events code language suite st =
     (case suite of
        None \<Rightarrow> alert (js ''No tests found for this language.'') st
      | Some ts \<Rightarrow>
          let st1 = setIsRunning True st;
              fullCode = code @ js ''\<newline>'' @ testCode ts;
              cases = testCases ts;
              st2 = setResults (Array_map (\<lambda>_ i. runningSlot i) cases) st1;
              st3 = runCode_loop remote events language fullCode cases 0 [] st2
          in setIsRunning False st3)"

section \<open>The run of the second version (\<open>unnamed/part_000\<close>)\<close>

text \<open>
  This version updates the state array by index. In JavaScript a write past the end
  extends the array and leaves holes, so a slot of the state array is an option, with
  \<open>None\<close> for a hole.
\<close>

definition Array_set :: "'a option list \<Rightarrow> nat \<Rightarrow> 'a \<Rightarrow> 'a option list" where
  "Array_set xs i v =
     (if i < length xs then xs[i := Some v]
      else xs @ replicate (i - length xs) None @ [Some v])"

text \<open>
  The same state and effect log as above; the state array is \<open>testResults\<close> here, and the
  other fields carry the suffix \<open>_p0\<close>.
\<close>

record App_p0 =
  testResults :: "TestResult option list"
  isRunning_p0 :: bool
  alerts_p0 :: "jsstring list"
  posted_p0 :: "Submission list"
  published_p0 :: "TestResult option list list"

definition alert_p0 :: "jsstring \<Rightarrow> App_p0 \<Rightarrow> App_p0" where
  "alert_p0 text st = st\<lparr>alerts_p0 := alerts_p0 st @ [text]\<rparr>"

definition setIsRunning_p0 :: "bool \<Rightarrow> App_p0 \<Rightarrow> App_p0" where
  "setIsRunning_p0 b st = st\<lparr>isRunning_p0 := b\<rparr>"

text \<open>
  \<open>setTestResults\<close> with an updater function: the updater receives the state array as it
  is when the update is made, whoever wrote it last.
\<close>

definition setTestResults ::
  "(TestResult option list \<Rightarrow> TestResult option list) \<Rightarrow> App_p0 \<Rightarrow> App_p0" where
  "setTestResults f st =
     (let v = f (testResults st) in st\<lparr>testResults := v, published_p0 := published_p0 st @ [v]\<rparr>)"

definition axios_post_p0 ::
  "service \<Rightarrow> Submission \<Rightarrow> App_p0 \<Rightarrow> (Thrown + Judge0Response) \<times> App_p0" where
  "axios_post_p0 remote body st =
     (remote (length (posted_p0 st)) body, st\<lparr>posted_p0 := posted_p0 st @ [body]\<rparr>)"

text \<open>
  \<open>handleProblemChange\<close> and \<open>handleLanguageChange\<close>: of the state modelled here they
  write the result array only (\<open>setTestResults([])\<close>).
\<close>

definition handleProblemChange :: "nat \<Rightarrow> App_p0 \<Rightarrow> App_p0" where
  "handleProblemChange index st = st\<lparr>testResults := []\<rparr>"

definition handleLanguageChange :: "Language \<Rightarrow> App_p0 \<Rightarrow> App_p0" where
  "handleLanguageChange newLang st = st\<lparr>testResults := []\<rparr>"

definition awaiting_p0 :: "UserEvent list \<Rightarrow> App_p0 \<Rightarrow> App_p0" where
  "awaiting_p0 evs st =
     fold (\<lambda>ev. case ev of ProblemChosen index \<Rightarrow> handleProblemChange index
                          | LanguageChosen newLang \<Rightarrow> handleLanguageChange newLang) evs st"

text \<open>The value of \<open>errorResult\<close> in the \<open>catch\<close> clause.\<close>

definition errorResult :: "Thrown \<Rightarrow> nat \<Rightarrow> TestResult" where
  "errorResult err i =
     \<lparr>testNumber = i + 1, status = failed,
      message = js ''Test Case '' @ Number_toString (i + 1) @ js '' Failed - API Error'',
      res_input = None, expected = None, actual = None, res_time = None, res_memory = None,
      error = Some (if truthy (err_message err) then the (err_message err)
                    else js ''Unknown error'')\<rparr>"

text \<open>
  What one iteration pushes onto \<open>results\<close> and writes into the state array: \<open>testResult\<close>
  in the \<open>try\<close> block, \<open>errorResult\<close> in the \<open>catch\<close> clause.
\<close>

definition iterationResult_p0 :: "Thrown + Judge0Response \<Rightarrow> TestCase \<Rightarrow> nat \<Rightarrow> TestResult" where
  "iterationResult_p0 outcome testCase i =
     (case outcome of
        Inr result \<Rightarrow> testResult result testCase i
      | Inl err \<Rightarrow> errorResult err i)"

text \<open>
  The \<open>for\<close> loop, from index \<open>i\<close> with the local array \<open>results\<close>. Both the \<open>try\<close>
  block and the \<open>catch\<close> clause end with the same push and the same update of slot \<open>i\<close>
  through an updater, which is applied to the state array left by the handlers that ran
  during the \<open>await\<close>.
\<close>

function runCode_loop_p0 ::
  "service \<Rightarrow> interleaving \<Rightarrow> Language \<Rightarrow> jsstring \<Rightarrow> TestCase list \<Rightarrow> nat \<Rightarrow>
   TestResult list \<Rightarrow> App_p0 \<Rightarrow> App_p0"
  where
  "runCode_loop_p0 remote events language fullCode cases i rs st =
     (if i < length cases then
        (let testCase = cases ! i in
         case axios_post_p0 remote
                \<lparr>language_id = languageIds language, source_code = fullCode,
                 stdin = input testCase\<rparr> st of
           (outcome, st1) \<Rightarrow>
             let st2 = awaiting_p0 (events i) st1;
                 r = iterationResult_p0 outcome testCase i
             in runCode_loop_p0 remote events language fullCode cases (i + 1) (rs @ [r])
                  (setTestResults (\<lambda>prev. Array_set prev i r) st2))
      else st)"
  by pat_completeness auto
termination
  by (relation "measure (\<lambda>(remote, events, language, fullCode, cases, i, rs, st).
                  length cases - i)")
     auto

declare runCode_loop_p0.simps [simp del]

definition runCode_p0 ::
  "service \<Rightarrow> interleaving \<Rightarrow> jsstring \<Rightarrow> Language \<Rightarrow> TestSuite option \<Rightarrow> App_p0 \<Rightarrow> App_p0"
  where
  "runCode_p0 remote events code language suite st =
     (case suite of
        None \<Rightarrow> alert_p0 (js ''Test cases not available for this language.'') st
      | Some ts \<Rightarrow>
          let st1 = setIsRunning_p0 True st;
              fullCode = code @ js ''\<newline>'' @ testCode ts;
              initialResults = Array_map (\<lambda>_ index. runningSlot index) (testCases ts);
              st2 = setTestResults (\<lambda>_. map Some initialResults) st1;
              st3 = runCode_loop_p0 remote events language fullCode (testCases ts) 0 [] st2
          in setIsRunning_p0 False st3)"

section \<open>Closed forms of a run\<close>

text \<open>
  The definitions of this section are not taken from the source: they name what the loops
  are proved to compute. \<open>request\<close> is the body posted for a test case, \<open>resolved\<close> the
  result that iteration \<open>j\<close> stores when the run starts after \<open>n0\<close> earlier calls, and
  \<open>snapshot\<close> the array published at the end of iteration \<open>k\<close>. For the second version,
  \<open>snapshot_p0 \<dots> k\<close> is the state array once the first \<open>k\<close> slots are resolved, in a
  run during which the user chooses nothing; \<open>undisturbed events n\<close> says so for the first
  \<open>n\<close> iterations.
\<close>

definition request :: "Language \<Rightarrow> jsstring \<Rightarrow> TestCase \<Rightarrow> Submission" where
  "request language fullCode tc =
     \<lparr>language_id = LANGUAGE_IDS language, source_code = fullCode, stdin = input tc\<rparr>"

definition resolved ::
  "service \<Rightarrow> nat \<Rightarrow> Language \<Rightarrow> jsstring \<Rightarrow> TestCase list \<Rightarrow> nat \<Rightarrow> TestResult" where
  "resolved remote n0 language fullCode cases j =
     iterationResult (remote (n0 + j) (request language fullCode (cases ! j))) (cases ! j) j"

definition snapshot ::
  "service \<Rightarrow> nat \<Rightarrow> Language \<Rightarrow> jsstring \<Rightarrow> TestCase list \<Rightarrow> nat \<Rightarrow> TestResult list" where
  "snapshot remote n0 language fullCode cases k =
     map (resolved remote n0 language fullCode cases) [0..<Suc k] @
     map (waitingSlot k) [0..<length cases - Suc k]"

definition resolved_p0 ::
  "service \<Rightarrow> nat \<Rightarrow> Language \<Rightarrow> jsstring \<Rightarrow> TestCase list \<Rightarrow> nat \<Rightarrow> TestResult" where
  "resolved_p0 remote n0 language fullCode cases j =
     iterationResult_p0 (remote (n0 + j) (request language fullCode (cases ! j))) (cases ! j) j"

definition snapshot_p0 ::
  "service \<Rightarrow> nat \<Rightarrow> Language \<Rightarrow> jsstring \<Rightarrow> TestCase list \<Rightarrow> nat \<Rightarrow> TestResult option list"
  where
  "snapshot_p0 remote n0 language fullCode cases k =
     map (\<lambda>j. Some (resolved_p0 remote n0 language fullCode cases j)) [0..<k] @
     map (\<lambda>j. Some (runningSlot j)) [k..<length cases]"

definition undisturbed :: "interleaving \<Rightarrow> nat \<Rightarrow> bool" where
  "undisturbed events n = list_all (\<lambda>k. events k = []) [0..<n]"

section \<open>Concrete inputs for the examples\<close>

text \<open>
  A suite of two cases, a table that has it for Python only, a service whose second call
  fails and whose other calls print 5, a service whose every call fails with an empty
  message, a user who chooses nothing, a user who chooses another problem while the first
  call is awaited and another language while each later call is, and the state of a freshly
  mounted component in both versions.
\<close>

definition demo_suite :: TestSuite where
  "demo_suite =
     \<lparr>testCode = js ''main()'',
      testCases = [\<lparr>input = js ''2 3'', expectedOutput = js ''5''\<rparr>,
                   \<lparr>input = js ''0 0'', expectedOutput = js ''0''\<rparr>]\<rparr>"

definition demo_map :: "jsstring \<rightharpoonup> (Language \<rightharpoonup> TestSuite)" where
  "demo_map = [js ''sumOfTwoNumbers'' \<mapsto> [python \<mapsto> demo_suite]]"

definition demo_remote :: service where
  "demo_remote k body =
     (if k = 1 then Inl \<lparr>err_message = Some (js ''Network Error'')\<rparr>
      else Inr \<lparr>stdout = Some (js ''5\<newline>''), stderr = None, compile_output = None,
                time = Some (js ''0.01''), memory = Some 3000\<rparr>)"

definition blank_remote :: service where
  "blank_remote k body = Inl \<lparr>err_message = Some []\<rparr>"

definition quiet :: interleaving where
  "quiet i = []"

definition restless :: interleaving where
  "restless i = (if i = 0 then [ProblemChosen 1] else [LanguageChosen cpp])"

definition idle :: App where
  "idle = \<lparr>results = [], isRunning = False, alerts = [], posted = [], published = []\<rparr>"

definition idle_p0 :: App_p0 where
  "idle_p0 = \<lparr>testResults = [], isRunning_p0 = False, alerts_p0 = [], posted_p0 = [],
              published_p0 = []\<rparr>"

section \<open>Properties of the classification\<close>

lemma message_suffix_neq:
  "js ''Test Case '' @ n @ js '' Failed - Runtime Error'' \<noteq>
   js ''Test Case '' @ n @ js '' Failed - Wrong Answer''"
  by (simp add: js_def)

lemma pass_condition:
  "(truthy (stdout r) \<and> trim (the (stdout r)) = expectedOutput tc) \<longleftrightarrow>
   (\<exists>s. stdout r = Some s \<and> s \<noteq> [] \<and> trim s = expectedOutput tc)"
  by (cases "stdout r") (simp_all add: truthy_def)

lemma truthy_iff: "truthy v \<longleftrightarrow> \<not> (v = None \<or> v = Some [])"
  by (cases v) (simp_all add: truthy_def)

text \<open>
  C1: the order of the classification is fixed, and the first case that applies decides,
  in both versions. A call that throws gives the API-error result. Otherwise, a stdout that
  is non-empty and matches after trimming gives passed, whatever stderr and the compile
  output hold. Otherwise a non-empty stderr gives the runtime-error result (error = the
  stderr text; input, expected, actual, time and memory absent), whatever the compile
  output holds. Otherwise a non-empty compile output gives the compilation-error result.
  Otherwise the result is the wrong-answer one. In particular, a response whose trimmed
  stdout differs from the expected output (or that has no stdout) and whose stderr is
  non-empty is the runtime-error result and not the wrong-answer one.
\<close>

theorem C1_classification_precedence:
  fixes r :: Judge0Response and tc :: TestCase and i :: nat
  defines "matches \<equiv> (\<exists>s. stdout r = Some s \<and> s \<noteq> [] \<and> trim s = expectedOutput tc)"
  defines "noStderr \<equiv> (stderr r = None \<or> stderr r = Some [])"
  defines "noCompile \<equiv> (compile_output r = None \<or> compile_output r = Some [])"
  defines "Passed \<equiv>
     \<lparr>testNumber = i + 1, status = passed,
      message = js ''Test Case '' @ Number_toString (i + 1) @ js '' Passed'',
      res_input = Some (input tc), expected = Some (expectedOutput tc),
      actual = Some (expectedOutput tc),
      res_time = time r, res_memory = memory r, error = None\<rparr>"
  defines "RuntimeError \<equiv> \<lambda>e.
     \<lparr>testNumber = i + 1, status = failed,
      message = js ''Test Case '' @ Number_toString (i + 1) @ js '' Failed - Runtime Error'',
      res_input = None, expected = None, actual = None,
      res_time = None, res_memory = None, error = Some e\<rparr>"
  defines "CompileError \<equiv> \<lambda>c.
     \<lparr>testNumber = i + 1, status = failed,
      message = js ''Test Case '' @ Number_toString (i + 1) @ js '' Failed - Compilation Error'',
      res_input = None, expected = None, actual = None,
      res_time = None, res_memory = None, error = Some c\<rparr>"
  defines "WrongAnswer \<equiv>
     \<lparr>testNumber = i + 1, status = failed,
      message = js ''Test Case '' @ Number_toString (i + 1) @ js '' Failed - Wrong Answer'',
      res_input = Some (input tc), expected = Some (expectedOutput tc),
      actual = Some (case stdout r of
                       None \<Rightarrow> js ''No output''
                     | Some s \<Rightarrow> if s = [] then js ''No output'' else trim s),
      res_time = None, res_memory = None, error = None\<rparr>"
  shows "(matches \<longrightarrow> parseResult r tc i = Passed \<and> testResult r tc i = Passed)
     \<and> (\<not> matches \<and> stderr r = Some e \<and> e \<noteq> [] \<longrightarrow>
          parseResult r tc i = RuntimeError e \<and> testResult r tc i = RuntimeError e)
     \<and> (\<not> matches \<and> noStderr \<and> compile_output r = Some c \<and> c \<noteq> [] \<longrightarrow>
          parseResult r tc i = CompileError c \<and> testResult r tc i = CompileError c)
     \<and> (\<not> matches \<and> noStderr \<and> noCompile \<longrightarrow>
          parseResult r tc i = WrongAnswer \<and> testResult r tc i = WrongAnswer)
     \<and> ((case stdout r of None \<Rightarrow> True | Some s \<Rightarrow> trim s \<noteq> expectedOutput tc) \<and>
         stderr r = Some e \<and> e \<noteq> [] \<longrightarrow>
          parseResult r tc i = RuntimeError e \<and> testResult r tc i = RuntimeError e \<and>
          parseResult r tc i \<noteq> WrongAnswer \<and> testResult r tc i \<noteq> WrongAnswer \<and>
          message (parseResult r tc i) \<noteq> message WrongAnswer \<and>
          message (testResult r tc i) \<noteq> message WrongAnswer)
     \<and> iterationResult (Inr r) tc i = parseResult r tc i
     \<and> iterationResult_p0 (Inr r) tc i = testResult r tc i
     \<and> iterationResult (Inl err) tc i =
          \<lparr>testNumber = i + 1, status = failed,
           message = js ''Test Case '' @ Number_toString (i + 1) @ js '' Failed - API Error'',
           res_input = None, expected = None, actual = None,
           res_time = None, res_memory = None, error = err_message err\<rparr>
     \<and> iterationResult_p0 (Inl err) tc i =
          \<lparr>testNumber = i + 1, status = failed,
           message = js ''Test Case '' @ Number_toString (i + 1) @ js '' Failed - API Error'',
           res_input = None, expected = None, actual = None,
           res_time = None, res_memory = None,
           error = Some (case err_message err of
                           None \<Rightarrow> js ''Unknown error''
                         | Some m \<Rightarrow> if m = [] then js ''Unknown error'' else m)\<rparr>"
proof -
  have m: "(truthy (stdout r) \<and> trim (the (stdout r)) = expectedOutput tc) \<longleftrightarrow> matches"
    unfolding matches_def by (rule pass_condition)
  have e: "truthy (stderr r) \<longleftrightarrow> \<not> noStderr"
    unfolding noStderr_def by (rule truthy_iff)
  have c: "truthy (compile_output r) \<longleftrightarrow> \<not> noCompile"
    unfolding noCompile_def by (rule truthy_iff)
  have p1: "matches \<Longrightarrow> parseResult r tc i = Passed \<and> testResult r tc i = Passed"
  proof -
    assume matches
    then obtain s where s: "stdout r = Some s" "s \<noteq> []" "trim s = expectedOutput tc"
      unfolding matches_def by blast
    then show ?thesis
      by (simp add: parseResult_def testResult_def Let_def truthy_def Passed_def)
  qed
  have p2: "parseResult r tc i = RuntimeError e \<and> testResult r tc i = RuntimeError e"
    if "\<not> matches" "stderr r = Some e" "e \<noteq> []"
    using that m by (simp add: parseResult_def testResult_def Let_def truthy_def RuntimeError_def)
  have p3: "parseResult r tc i = CompileError c \<and> testResult r tc i = CompileError c"
    if "\<not> matches" "noStderr" "compile_output r = Some c" "c \<noteq> []" for c
    using that m e
    by (simp add: parseResult_def testResult_def Let_def CompileError_def)
       (simp add: truthy_def)
  have act: "(if truthy (stdout r) then trim (the (stdout r)) else js ''No output'') =
             (case stdout r of None \<Rightarrow> js ''No output''
              | Some s \<Rightarrow> if s = [] then js ''No output'' else trim s)"
    by (cases "stdout r") (simp_all add: truthy_def)
  have p4: "parseResult r tc i = WrongAnswer \<and> testResult r tc i = WrongAnswer"
    if "\<not> matches" "noStderr" "noCompile"
    using that m e c
    by (simp add: parseResult_def testResult_def Let_def WrongAnswer_def act)
  have p5: "parseResult r tc i = RuntimeError e \<and> testResult r tc i = RuntimeError e \<and>
            parseResult r tc i \<noteq> WrongAnswer \<and> testResult r tc i \<noteq> WrongAnswer \<and>
            message (parseResult r tc i) \<noteq> message WrongAnswer \<and>
            message (testResult r tc i) \<noteq> message WrongAnswer"
    if mis: "case stdout r of None \<Rightarrow> True | Some s \<Rightarrow> trim s \<noteq> expectedOutput tc"
      and err: "stderr r = Some e" "e \<noteq> []"
  proof -
    have "\<not> matches"
      using mis unfolding matches_def by (cases "stdout r") auto
    then have rt: "parseResult r tc i = RuntimeError e \<and> testResult r tc i = RuntimeError e"
      using err by (rule p2)
    have "message (RuntimeError e) \<noteq> message WrongAnswer"
      using message_suffix_neq [of "Number_toString (i + 1)"]
      by (simp add: RuntimeError_def WrongAnswer_def)
    then show ?thesis
      using rt by auto
  qed
  have p6: "iterationResult (Inr r) tc i = parseResult r tc i"
           "iterationResult_p0 (Inr r) tc i = testResult r tc i"
    by (simp_all add: iterationResult_def iterationResult_p0_def)
  have p7: "iterationResult (Inl err) tc i =
          \<lparr>testNumber = i + 1, status = failed,
           message = js ''Test Case '' @ Number_toString (i + 1) @ js '' Failed - API Error'',
           res_input = None, expected = None, actual = None,
           res_time = None, res_memory = None, error = err_message err\<rparr>"
    by (simp add: iterationResult_def apiError_def)
  have p8: "iterationResult_p0 (Inl err) tc i =
          \<lparr>testNumber = i + 1, status = failed,
           message = js ''Test Case '' @ Number_toString (i + 1) @ js '' Failed - API Error'',
           res_input = None, expected = None, actual = None,
           res_time = None, res_memory = None,
           error = Some (case err_message err of
                           None \<Rightarrow> js ''Unknown error''
                         | Some m \<Rightarrow> if m = [] then js ''Unknown error'' else m)\<rparr>"
    by (simp add: iterationResult_p0_def errorResult_def truthy_def split: option.split)
  show ?thesis
    using p1 p2 p3 p4 p5 p6 p7 p8 by blast
qed

text \<open>
  Witness for C1, one response for each case of the order: a matching stdout with stderr
  and compile output present (passed); stdout \<open>X\<close> against \<open>Y\<close> with both present
  (runtime error); no stdout, an empty stderr and a compile output (compilation error); a
  stdout that differs and nothing else (wrong answer).
\<close>

theorem C1_classification_precedence_witness:
  "parseResult
      \<lparr>stdout = Some (js ''5\<newline>''), stderr = Some (js ''warn''),
       compile_output = Some (js ''note''), time = None, memory = None\<rparr>
      \<lparr>input = js ''2 3'', expectedOutput = js ''5''\<rparr> 0 =
     \<lparr>testNumber = 1, status = passed, message = js ''Test Case 1 Passed'',
      res_input = Some (js ''2 3''), expected = Some (js ''5''), actual = Some (js ''5''),
      res_time = None, res_memory = None, error = None\<rparr>
 \<and> parseResult
      \<lparr>stdout = Some (js ''X''), stderr = Some (js ''boom''),
       compile_output = Some (js ''warning''), time = None, memory = None\<rparr>
      \<lparr>input = js ''1 2'', expectedOutput = js ''Y''\<rparr> 0 =
     \<lparr>testNumber = 1, status = failed, message = js ''Test Case 1 Failed - Runtime Error'',
      res_input = None, expected = None, actual = None,
      res_time = None, res_memory = None, error = Some (js ''boom'')\<rparr>
 \<and> testResult
      \<lparr>stdout = Some (js ''X''), stderr = Some (js ''boom''),
       compile_output = Some (js ''warning''), time = None, memory = None\<rparr>
      \<lparr>input = js ''1 2'', expectedOutput = js ''Y''\<rparr> 0 =
     \<lparr>testNumber = 1, status = failed, message = js ''Test Case 1 Failed - Runtime Error'',
      res_input = None, expected = None, actual = None,
      res_time = None, res_memory = None, error = Some (js ''boom'')\<rparr>
 \<and> parseResult
      \<lparr>stdout = None, stderr = Some [],
       compile_output = Some (js ''syntax error''), time = None, memory = None\<rparr>
      \<lparr>input = js ''1 2'', expectedOutput = js ''3''\<rparr> 0 =
     \<lparr>testNumber = 1, status = failed,
      message = js ''Test Case 1 Failed - Compilation Error'',
      res_input = None, expected = None, actual = None,
      res_time = None, res_memory = None, error = Some (js ''syntax error'')\<rparr>
 \<and> parseResult
      \<lparr>stdout = Some (js ''1\<newline>''), stderr = None,
       compile_output = None, time = None, memory = None\<rparr>
      \<lparr>input = js ''0 0'', expectedOutput = js ''0''\<rparr> 1 =
     \<lparr>testNumber = 2, status = failed, message = js ''Test Case 2 Failed - Wrong Answer'',
      res_input = Some (js ''0 0''), expected = Some (js ''0''), actual = Some (js ''1''),
      res_time = None, res_memory = None, error = None\<rparr>"
proof -
  note ev = js_def trim_def isWhiteSpace_def Number_toString.simps
  have a: "parseResult
      \<lparr>stdout = Some (js ''5\<newline>''), stderr = Some (js ''warn''),
       compile_output = Some (js ''note''), time = None, memory = None\<rparr>
      \<lparr>input = js ''2 3'', expectedOutput = js ''5''\<rparr> 0 =
     \<lparr>testNumber = 1, status = passed, message = js ''Test Case 1 Passed'',
      res_input = Some (js ''2 3''), expected = Some (js ''5''), actual = Some (js ''5''),
      res_time = None, res_memory = None, error = None\<rparr>"
    using C1_classification_precedence
      [where r = "\<lparr>stdout = Some (js ''5\<newline>''), stderr = Some (js ''warn''),
                   compile_output = Some (js ''note''), time = None, memory = None\<rparr>"
         and tc = "\<lparr>input = js ''2 3'', expectedOutput = js ''5''\<rparr>" and i = 0]
    by (simp add: ev)
  have b: "parseResult
      \<lparr>stdout = Some (js ''X''), stderr = Some (js ''boom''),
       compile_output = Some (js ''warning''), time = None, memory = None\<rparr>
      \<lparr>input = js ''1 2'', expectedOutput = js ''Y''\<rparr> 0 =
     \<lparr>testNumber = 1, status = failed, message = js ''Test Case 1 Failed - Runtime Error'',
      res_input = None, expected = None, actual = None,
      res_time = None, res_memory = None, error = Some (js ''boom'')\<rparr>
   \<and> testResult
      \<lparr>stdout = Some (js ''X''), stderr = Some (js ''boom''),
       compile_output = Some (js ''warning''), time = None, memory = None\<rparr>
      \<lparr>input = js ''1 2'', expectedOutput = js ''Y''\<rparr> 0 =
     \<lparr>testNumber = 1, status = failed, message = js ''Test Case 1 Failed - Runtime Error'',
      res_input = None, expected = None, actual = None,
      res_time = None, res_memory = None, error = Some (js ''boom'')\<rparr>"
    using C1_classification_precedence
      [where r = "\<lparr>stdout = Some (js ''X''), stderr = Some (js ''boom''),
                   compile_output = Some (js ''warning''), time = None, memory = None\<rparr>"
         and tc = "\<lparr>input = js ''1 2'', expectedOutput = js ''Y''\<rparr>"
         and e = "js ''boom''" and i = 0]
    by (simp add: ev)
  have c: "parseResult
      \<lparr>stdout = None, stderr = Some [],
       compile_output = Some (js ''syntax error''), time = None, memory = None\<rparr>
      \<lparr>input = js ''1 2'', expectedOutput = js ''3''\<rparr> 0 =
     \<lparr>testNumber = 1, status = failed,
      message = js ''Test Case 1 Failed - Compilation Error'',
      res_input = None, expected = None, actual = None,
      res_time = None, res_memory = None, error = Some (js ''syntax error'')\<rparr>"
    using C1_classification_precedence
      [where r = "\<lparr>stdout = None, stderr = Some [],
                   compile_output = Some (js ''syntax error''), time = None, memory = None\<rparr>"
         and tc = "\<lparr>input = js ''1 2'', expectedOutput = js ''3''\<rparr>"
         and c = "js ''syntax error''" and i = 0]
    by (simp add: ev)
  have d: "parseResult
      \<lparr>stdout = Some (js ''1\<newline>''), stderr = None,
       compile_output = None, time = None, memory = None\<rparr>
      \<lparr>input = js ''0 0'', expectedOutput = js ''0''\<rparr> 1 =
     \<lparr>testNumber = 2, status = failed, message = js ''Test Case 2 Failed - Wrong Answer'',
      res_input = Some (js ''0 0''), expected = Some (js ''0''), actual = Some (js ''1''),
      res_time = None, res_memory = None, error = None\<rparr>"
    using C1_classification_precedence
      [where r = "\<lparr>stdout = Some (js ''1\<newline>''), stderr = None,
                   compile_output = None, time = None, memory = None\<rparr>"
         and tc = "\<lparr>input = js ''0 0'', expectedOutput = js ''0''\<rparr>" and i = 1]
    by (simp add: ev)
  show ?thesis
    using a b c d by (intro conjI) simp_all
qed

text \<open>
  C8: \<open>parseResult\<close> and the branch chain inlined in the second version return the same
  result, field by field, for every response, test case and index.
\<close>

theorem C8_classifiers_agree: "parseResult r tc i = testResult r tc i"
  by (simp add: parseResult_def testResult_def Let_def)

lemma parseResult_passed_iff:
  "status (parseResult r tc i) = passed \<longleftrightarrow>
   (truthy (stdout r) \<and> trim (the (stdout r)) = expectedOutput tc)"
  by (simp add: parseResult_def Let_def)

lemma testResult_passed_iff:
  "status (testResult r tc i) = passed \<longleftrightarrow>
   (truthy (stdout r) \<and> trim (the (stdout r)) = expectedOutput tc)"
  by (simp add: testResult_def)

text \<open>
  C2: in both versions the result is passed exactly when stdout is a non-empty string whose
  trimmed value equals the expected output; then the result carries the trimmed stdout as
  actual, the expected output, the input of the test case and the time and memory of the
  response. Stdout \<open>" 42"\<close> followed by a line feed, against \<open>"42"\<close> is passed; stdout \<open>"42 "\<close> against
  \<open>"4 2"\<close> is the wrong-answer failure with actual \<open>"42"\<close>.
\<close>

theorem C2_passed_iff_trimmed_match:
  "(status (parseResult r tc i) = passed \<longleftrightarrow>
      (\<exists>s. stdout r = Some s \<and> s \<noteq> [] \<and> trim s = expectedOutput tc))
 \<and> (status (testResult r tc i) = passed \<longleftrightarrow>
      (\<exists>s. stdout r = Some s \<and> s \<noteq> [] \<and> trim s = expectedOutput tc))
 \<and> (\<forall>s. stdout r = Some s \<and> s \<noteq> [] \<and> trim s = expectedOutput tc \<longrightarrow>
        parseResult r tc i =
          \<lparr>testNumber = i + 1, status = passed,
           message = js ''Test Case '' @ Number_toString (i + 1) @ js '' Passed'',
           res_input = Some (input tc), expected = Some (expectedOutput tc),
           actual = Some (trim s), res_time = time r, res_memory = memory r, error = None\<rparr>
      \<and> testResult r tc i =
          \<lparr>testNumber = i + 1, status = passed,
           message = js ''Test Case '' @ Number_toString (i + 1) @ js '' Passed'',
           res_input = Some (input tc), expected = Some (expectedOutput tc),
           actual = Some (trim s), res_time = time r, res_memory = memory r, error = None\<rparr>)
 \<and> status (parseResult
        \<lparr>stdout = Some (js '' 42\<newline>''), stderr = None, compile_output = None,
         time = None, memory = None\<rparr>
        \<lparr>input = js '''', expectedOutput = js ''42''\<rparr> 0) = passed
 \<and> parseResult
        \<lparr>stdout = Some (js ''42 ''), stderr = None, compile_output = None,
         time = None, memory = None\<rparr>
        \<lparr>input = js '''', expectedOutput = js ''4 2''\<rparr> 0 =
      \<lparr>testNumber = 1, status = failed, message = js ''Test Case 1 Failed - Wrong Answer'',
       res_input = Some (js ''''), expected = Some (js ''4 2''), actual = Some (js ''42''),
       res_time = None, res_memory = None, error = None\<rparr>
 \<and> status (testResult
        \<lparr>stdout = Some (js '' 42\<newline>''), stderr = None, compile_output = None,
         time = None, memory = None\<rparr>
        \<lparr>input = js '''', expectedOutput = js ''42''\<rparr> 0) = passed
 \<and> testResult
        \<lparr>stdout = Some (js ''42 ''), stderr = None, compile_output = None,
         time = None, memory = None\<rparr>
        \<lparr>input = js '''', expectedOutput = js ''4 2''\<rparr> 0 =
      \<lparr>testNumber = 1, status = failed, message = js ''Test Case 1 Failed - Wrong Answer'',
       res_input = Some (js ''''), expected = Some (js ''4 2''), actual = Some (js ''42''),
       res_time = None, res_memory = None, error = None\<rparr>"
proof (intro conjI)
  show "status (testResult
        \<lparr>stdout = Some (js '' 42\<newline>''), stderr = None, compile_output = None,
         time = None, memory = None\<rparr>
        \<lparr>input = js '''', expectedOutput = js ''42''\<rparr> 0) = passed"
    by (simp add: testResult_def truthy_def js_def trim_def isWhiteSpace_def)
  show "testResult
        \<lparr>stdout = Some (js ''42 ''), stderr = None, compile_output = None,
         time = None, memory = None\<rparr>
        \<lparr>input = js '''', expectedOutput = js ''4 2''\<rparr> 0 =
      \<lparr>testNumber = 1, status = failed, message = js ''Test Case 1 Failed - Wrong Answer'',
       res_input = Some (js ''''), expected = Some (js ''4 2''), actual = Some (js ''42''),
       res_time = None, res_memory = None, error = None\<rparr>"
    by (simp add: testResult_def truthy_def js_def trim_def isWhiteSpace_def
        Number_toString.simps)
  show "status (parseResult r tc i) = passed \<longleftrightarrow>
      (\<exists>s. stdout r = Some s \<and> s \<noteq> [] \<and> trim s = expectedOutput tc)"
    by (simp only: parseResult_passed_iff pass_condition)
  show "status (testResult r tc i) = passed \<longleftrightarrow>
      (\<exists>s. stdout r = Some s \<and> s \<noteq> [] \<and> trim s = expectedOutput tc)"
    by (simp only: testResult_passed_iff pass_condition)
  show "\<forall>s. stdout r = Some s \<and> s \<noteq> [] \<and> trim s = expectedOutput tc \<longrightarrow>
        parseResult r tc i =
          \<lparr>testNumber = i + 1, status = passed,
           message = js ''Test Case '' @ Number_toString (i + 1) @ js '' Passed'',
           res_input = Some (input tc), expected = Some (expectedOutput tc),
           actual = Some (trim s), res_time = time r, res_memory = memory r, error = None\<rparr>
      \<and> testResult r tc i =
          \<lparr>testNumber = i + 1, status = passed,
           message = js ''Test Case '' @ Number_toString (i + 1) @ js '' Passed'',
           res_input = Some (input tc), expected = Some (expectedOutput tc),
           actual = Some (trim s), res_time = time r, res_memory = memory r, error = None\<rparr>"
    by (simp add: parseResult_def testResult_def Let_def truthy_def)
  show "status (parseResult
        \<lparr>stdout = Some (js '' 42\<newline>''), stderr = None, compile_output = None,
         time = None, memory = None\<rparr>
        \<lparr>input = js '''', expectedOutput = js ''42''\<rparr> 0) = passed"
    by (simp add: parseResult_def Let_def truthy_def js_def trim_def isWhiteSpace_def)
  show "parseResult
        \<lparr>stdout = Some (js ''42 ''), stderr = None, compile_output = None,
         time = None, memory = None\<rparr>
        \<lparr>input = js '''', expectedOutput = js ''4 2''\<rparr> 0 =
      \<lparr>testNumber = 1, status = failed, message = js ''Test Case 1 Failed - Wrong Answer'',
       res_input = Some (js ''''), expected = Some (js ''4 2''), actual = Some (js ''42''),
       res_time = None, res_memory = None, error = None\<rparr>"
    by (simp add: parseResult_def Let_def truthy_def js_def trim_def isWhiteSpace_def
        Number_toString.simps)
qed

text \<open>
  Witness for C2: stdout \<open>" 5"\<close> followed by a line feed, against \<open>"5"\<close>, with time and memory present (and
  a stderr text, which the pass branch ignores).
\<close>

theorem C2_passed_iff_trimmed_match_witness:
  "parseResult
     \<lparr>stdout = Some (js '' 5\<newline>''), stderr = Some (js ''note''), compile_output = None,
      time = Some (js ''0.012''), memory = Some 3204\<rparr>
     \<lparr>input = js ''2 3'', expectedOutput = js ''5''\<rparr> 0 =
   \<lparr>testNumber = 1, status = passed, message = js ''Test Case 1 Passed'',
    res_input = Some (js ''2 3''), expected = Some (js ''5''), actual = Some (js ''5''),
    res_time = Some (js ''0.012''), res_memory = Some 3204, error = None\<rparr>
 \<and> status (testResult
     \<lparr>stdout = Some (js '' 5\<newline>''), stderr = Some (js ''note''), compile_output = None,
      time = Some (js ''0.012''), memory = Some 3204\<rparr>
     \<lparr>input = js ''2 3'', expectedOutput = js ''5''\<rparr> 0) = passed"
  using C2_passed_iff_trimmed_match
    [where r = "\<lparr>stdout = Some (js '' 5\<newline>''), stderr = Some (js ''note''),
                 compile_output = None, time = Some (js ''0.012''), memory = Some 3204\<rparr>"
       and tc = "\<lparr>input = js ''2 3'', expectedOutput = js ''5''\<rparr>" and i = 0]
  by (simp add: js_def trim_def isWhiteSpace_def Number_toString.simps)

text \<open>
  C9: when stdout is the empty string the result is never passed, whatever the expected
  output is; and when stderr and the compile output are absent or empty as well, both
  versions return the wrong-answer failure whose actual field is the text \<open>No output\<close>.
\<close>

theorem C9_empty_stdout_is_no_output:
  assumes out: "stdout r = Some []"
  shows "status (parseResult r tc i) \<noteq> passed \<and> status (testResult r tc i) \<noteq> passed
     \<and> ((stderr r = None \<or> stderr r = Some []) \<and>
         (compile_output r = None \<or> compile_output r = Some []) \<longrightarrow>
          parseResult r tc i =
            \<lparr>testNumber = i + 1, status = failed,
             message = js ''Test Case '' @ Number_toString (i + 1) @ js '' Failed - Wrong Answer'',
             res_input = Some (input tc), expected = Some (expectedOutput tc),
             actual = Some (js ''No output''),
             res_time = None, res_memory = None, error = None\<rparr>
        \<and> testResult r tc i =
            \<lparr>testNumber = i + 1, status = failed,
             message = js ''Test Case '' @ Number_toString (i + 1) @ js '' Failed - Wrong Answer'',
             res_input = Some (input tc), expected = Some (expectedOutput tc),
             actual = Some (js ''No output''),
             res_time = None, res_memory = None, error = None\<rparr>)"
proof -
  have falsy: "\<not> truthy (stdout r)"
    using out by (simp add: truthy_def)
  have e: "truthy (stderr r) \<longleftrightarrow> \<not> (stderr r = None \<or> stderr r = Some [])"
    by (cases "stderr r") (simp_all add: truthy_def)
  have c: "truthy (compile_output r) \<longleftrightarrow>
           \<not> (compile_output r = None \<or> compile_output r = Some [])"
    by (cases "compile_output r") (simp_all add: truthy_def)
  show ?thesis
    using falsy by (auto simp add: parseResult_def testResult_def Let_def e c)
qed

text \<open>
  Witness for C9: empty stdout against an empty expected output.
\<close>

theorem C9_empty_stdout_is_no_output_witness:
  "parseResult
     \<lparr>stdout = Some [], stderr = None, compile_output = Some [], time = None, memory = None\<rparr>
     \<lparr>input = js ''0'', expectedOutput = []\<rparr> 2 =
   \<lparr>testNumber = 3, status = failed, message = js ''Test Case 3 Failed - Wrong Answer'',
    res_input = Some (js ''0''), expected = Some [], actual = Some (js ''No output''),
    res_time = None, res_memory = None, error = None\<rparr>
 \<and> status (testResult
     \<lparr>stdout = Some [], stderr = None, compile_output = Some [], time = None, memory = None\<rparr>
     \<lparr>input = js ''0'', expectedOutput = []\<rparr> 2) \<noteq> passed"
  using C9_empty_stdout_is_no_output
    [where r = "\<lparr>stdout = Some [], stderr = None, compile_output = Some [],
                 time = None, memory = None\<rparr>"
       and tc = "\<lparr>input = js ''0'', expectedOutput = []\<rparr>" and i = 2]
  by (simp add: Number_toString.simps js_def)

text \<open>
  C10: a passed result of either version has its actual field equal to its expected field,
  and both are the expected output of the test case.
\<close>

theorem C10_passed_actual_is_expected:
  "(status (parseResult r tc i) = passed \<longrightarrow>
      actual (parseResult r tc i) = expected (parseResult r tc i) \<and>
      expected (parseResult r tc i) = Some (expectedOutput tc))
 \<and> (status (testResult r tc i) = passed \<longrightarrow>
      actual (testResult r tc i) = expected (testResult r tc i) \<and>
      expected (testResult r tc i) = Some (expectedOutput tc))"
  by (simp add: parseResult_def testResult_def Let_def)

text \<open>
  Witness for C10: stdout \<open>"7  "\<close> against \<open>"7"\<close> passes, with actual \<open>"7"\<close>.
\<close>

theorem C10_passed_actual_is_expected_witness:
  "status (parseResult
     \<lparr>stdout = Some (js ''7  ''), stderr = None, compile_output = None,
      time = None, memory = None\<rparr>
     \<lparr>input = js ''3 4'', expectedOutput = js ''7''\<rparr> 1) = passed
 \<and> actual (parseResult
     \<lparr>stdout = Some (js ''7  ''), stderr = None, compile_output = None,
      time = None, memory = None\<rparr>
     \<lparr>input = js ''3 4'', expectedOutput = js ''7''\<rparr> 1) = Some (js ''7'')
 \<and> actual (testResult
     \<lparr>stdout = Some (js ''7  ''), stderr = None, compile_output = None,
      time = None, memory = None\<rparr>
     \<lparr>input = js ''3 4'', expectedOutput = js ''7''\<rparr> 1) = Some (js ''7'')"
proof -
  let ?r = "\<lparr>stdout = Some (js ''7  ''), stderr = None, compile_output = None,
             time = None, memory = None\<rparr>"
  let ?tc = "\<lparr>input = js ''3 4'', expectedOutput = js ''7''\<rparr>"
  have p: "status (parseResult ?r ?tc 1) = passed"
    by (simp add: parseResult_def Let_def truthy_def js_def trim_def isWhiteSpace_def)
  have t: "status (testResult ?r ?tc 1) = passed"
    by (simp add: testResult_def truthy_def js_def trim_def isWhiteSpace_def)
  show ?thesis
    using C10_passed_actual_is_expected [where r = ?r and tc = ?tc and i = 1] p t by simp
qed

section \<open>Properties of a run\<close>

lemma Array_map_index: "Array_map (\<lambda>_ k. f k) xs = map f [0..<length xs]"
proof -
  have "map (\<lambda>(k, x). f k) (enumerate 0 xs) = map (f \<circ> fst) (enumerate 0 xs)"
    by (simp add: case_prod_beta comp_def)
  also have "\<dots> = map f (map fst (enumerate 0 xs))"
    by (simp only: map_map)
  also have "\<dots> = map f [0..<length xs]"
    by (simp only: map_fst_enumerate) simp
  finally show ?thesis
    by (simp only: Array_map_def)
qed

lemma languageIds_eq: "languageIds l = LANGUAGE_IDS l"
  by (simp add: languageIds_def LANGUAGE_IDS_def)

lemma undisturbed_iff: "undisturbed events n \<longleftrightarrow> (\<forall>k<n. events k = [])"
  by (auto simp add: undisturbed_def list_all_iff)

subsection \<open>The handlers that run during an await\<close>

lemma awaiting_Nil: "awaiting [] st = st"
  by (simp add: awaiting_def)

lemma awaiting_fields:
  "posted (awaiting evs st) = posted st \<and> published (awaiting evs st) = published st
 \<and> isRunning (awaiting evs st) = isRunning st \<and> alerts (awaiting evs st) = alerts st"
proof (induction evs arbitrary: st)
  case Nil
  show ?case by (simp add: awaiting_def)
next
  case (Cons ev evs)
  have "awaiting (ev # evs) st =
        awaiting evs ((case ev of ProblemChosen idx \<Rightarrow> updateProblem idx
                               | LanguageChosen lang \<Rightarrow> updateLanguage lang) st)"
    by (simp add: awaiting_def)
  then show ?case
    using Cons.IH by (cases ev) (simp_all add: updateProblem_def updateLanguage_def)
qed

lemma awaiting_p0_Nil: "awaiting_p0 [] st = st"
  by (simp add: awaiting_p0_def)

lemma awaiting_p0_fields:
  "posted_p0 (awaiting_p0 evs st) = posted_p0 st
 \<and> published_p0 (awaiting_p0 evs st) = published_p0 st
 \<and> isRunning_p0 (awaiting_p0 evs st) = isRunning_p0 st
 \<and> alerts_p0 (awaiting_p0 evs st) = alerts_p0 st"
proof (induction evs arbitrary: st)
  case Nil
  show ?case by (simp add: awaiting_p0_def)
next
  case (Cons ev evs)
  have "awaiting_p0 (ev # evs) st =
        awaiting_p0 evs ((case ev of ProblemChosen index \<Rightarrow> handleProblemChange index
                                  | LanguageChosen newLang \<Rightarrow> handleLanguageChange newLang) st)"
    by (simp add: awaiting_p0_def)
  then show ?case
    using Cons.IH by (cases ev) (simp_all add: handleProblemChange_def handleLanguageChange_def)
qed

subsection \<open>The loop of \<open>client/src/App.tsx\<close>\<close>

lemma runCode_loop_done:
  "\<not> i < length cases \<Longrightarrow>
   runCode_loop remote events language fullCode cases i newResults st = st"
  by (simp add: runCode_loop.simps)

lemma runCode_loop_step:
  assumes "i < length cases"
  shows "runCode_loop remote events language fullCode cases i newResults st =
         (let r = iterationResult
                    (remote (length (posted st)) (request language fullCode (cases ! i)))
                    (cases ! i) i
          in runCode_loop remote events language fullCode cases (Suc i) (newResults @ [r])
               (setResults (newResults @ [r] @ map (waitingSlot i) [0..<length cases - Suc i])
                  (awaiting (events i)
                     (st\<lparr>posted := posted st @ [request language fullCode (cases ! i)]\<rparr>))))"
  using assms
  by (subst runCode_loop.simps)
     (simp add: axios_post_def Array_map_index request_def Let_def)

lemma runCode_loop_closed:
  assumes "n = length cases - i" "i \<le> length cases"
    and "length (posted st) = n0 + i"
    and "newResults = map (resolved remote n0 language fullCode cases) [0..<i]"
  shows "posted (runCode_loop remote events language fullCode cases i newResults st) =
           posted st @ map (\<lambda>j. request language fullCode (cases ! j)) [i..<length cases]
       \<and> published (runCode_loop remote events language fullCode cases i newResults st) =
           published st @ map (snapshot remote n0 language fullCode cases) [i..<length cases]
       \<and> results (runCode_loop remote events language fullCode cases i newResults st) =
           (if i < length cases
            then map (resolved remote n0 language fullCode cases) [0..<length cases]
            else results st)
       \<and> isRunning (runCode_loop remote events language fullCode cases i newResults st)
           = isRunning st
       \<and> alerts (runCode_loop remote events language fullCode cases i newResults st)
           = alerts st"
  using assms
proof (induction n arbitrary: i newResults st)
  case 0
  then have "\<not> i < length cases" by simp
  then show ?case
    by (simp add: runCode_loop_done)
next
  case (Suc n)
  then have lt: "i < length cases" by simp
  let ?r = "resolved remote n0 language fullCode cases i"
  let ?st = "setResults (snapshot remote n0 language fullCode cases i)
               (awaiting (events i)
                  (st\<lparr>posted := posted st @ [request language fullCode (cases ! i)]\<rparr>))"
  have snap: "newResults @ [?r] @ map (waitingSlot i) [0..<length cases - Suc i] =
              snapshot remote n0 language fullCode cases i"
    using Suc.prems(4) by (simp add: snapshot_def)
  have "runCode_loop remote events language fullCode cases i newResults st =
        runCode_loop remote events language fullCode cases (Suc i) (newResults @ [?r])
          (setResults (newResults @ [?r] @ map (waitingSlot i) [0..<length cases - Suc i])
             (awaiting (events i)
                (st\<lparr>posted := posted st @ [request language fullCode (cases ! i)]\<rparr>)))"
    using Suc.prems(3) by (simp add: runCode_loop_step [OF lt] resolved_def Let_def)
  then have step: "runCode_loop remote events language fullCode cases i newResults st =
        runCode_loop remote events language fullCode cases (Suc i) (newResults @ [?r]) ?st"
    by (simp only: snap)
  have fields: "posted ?st = posted st @ [request language fullCode (cases ! i)]"
    "published ?st = published st @ [snapshot remote n0 language fullCode cases i]"
    "results ?st = snapshot remote n0 language fullCode cases i"
    "isRunning ?st = isRunning st" "alerts ?st = alerts st"
    using awaiting_fields
      [of "events i" "st\<lparr>posted := posted st @ [request language fullCode (cases ! i)]\<rparr>"]
    by (simp_all add: setResults_def)
  have ih: "posted (runCode_loop remote events language fullCode cases (Suc i)
                      (newResults @ [?r]) ?st) =
           posted ?st @ map (\<lambda>j. request language fullCode (cases ! j)) [Suc i..<length cases]
       \<and> published (runCode_loop remote events language fullCode cases (Suc i)
                      (newResults @ [?r]) ?st) =
           published ?st @ map (snapshot remote n0 language fullCode cases) [Suc i..<length cases]
       \<and> results (runCode_loop remote events language fullCode cases (Suc i)
                      (newResults @ [?r]) ?st) =
           (if Suc i < length cases
            then map (resolved remote n0 language fullCode cases) [0..<length cases]
            else results ?st)
       \<and> isRunning (runCode_loop remote events language fullCode cases (Suc i)
                      (newResults @ [?r]) ?st) = isRunning ?st
       \<and> alerts (runCode_loop remote events language fullCode cases (Suc i)
                      (newResults @ [?r]) ?st) = alerts ?st"
  proof (rule Suc.IH)
    show "n = length cases - Suc i" using Suc.prems(1) by simp
    show "Suc i \<le> length cases" using lt by simp
    show "length (posted ?st) = n0 + Suc i"
      using Suc.prems(3) by (simp add: fields)
    show "newResults @ [?r] = map (resolved remote n0 language fullCode cases) [0..<Suc i]"
      using Suc.prems(4) by simp
  qed
  have last: "\<not> Suc i < length cases \<Longrightarrow>
      snapshot remote n0 language fullCode cases i =
      map (resolved remote n0 language fullCode cases) [0..<length cases]"
  proof -
    assume "\<not> Suc i < length cases"
    with lt have "length cases = Suc i" by simp
    then show ?thesis by (simp add: snapshot_def)
  qed
  show ?case
    unfolding step using ih [unfolded fields] lt last
    by (cases "Suc i < length cases") (simp_all add: upt_conv_Cons del: upt_Suc)
qed

lemma runCode_closed:
  "posted (runCode remote events code language (Some ts) st) =
     posted st @
     map (\<lambda>j. request language (code @ js ''\<newline>'' @ testCode ts) (testCases ts ! j))
       [0..<length (testCases ts)]
 \<and> published (runCode remote events code language (Some ts) st) =
     published st @
     map runningSlot [0..<length (testCases ts)] #
     map (snapshot remote (length (posted st)) language (code @ js ''\<newline>'' @ testCode ts)
            (testCases ts))
       [0..<length (testCases ts)]
 \<and> results (runCode remote events code language (Some ts) st) =
     map (resolved remote (length (posted st)) language (code @ js ''\<newline>'' @ testCode ts)
            (testCases ts))
       [0..<length (testCases ts)]
 \<and> isRunning (runCode remote events code language (Some ts) st) = False
 \<and> alerts (runCode remote events code language (Some ts) st) = alerts st"
proof -
  let ?fc = "code @ js ''\<newline>'' @ testCode ts"
  let ?cases = "testCases ts"
  let ?st2 = "setResults (map runningSlot [0..<length ?cases]) (setIsRunning True st)"
  have run: "runCode remote events code language (Some ts) st =
             setIsRunning False (runCode_loop remote events language ?fc ?cases 0 [] ?st2)"
    by (simp add: runCode_def Let_def Array_map_index)
  have loop:
    "posted (runCode_loop remote events language ?fc ?cases 0 [] ?st2) =
       posted ?st2 @ map (\<lambda>j. request language ?fc (?cases ! j)) [0..<length ?cases]
     \<and> published (runCode_loop remote events language ?fc ?cases 0 [] ?st2) =
       published ?st2 @
       map (snapshot remote (length (posted st)) language ?fc ?cases) [0..<length ?cases]
     \<and> results (runCode_loop remote events language ?fc ?cases 0 [] ?st2) =
       (if 0 < length ?cases
        then map (resolved remote (length (posted st)) language ?fc ?cases) [0..<length ?cases]
        else results ?st2)
     \<and> isRunning (runCode_loop remote events language ?fc ?cases 0 [] ?st2) = isRunning ?st2
     \<and> alerts (runCode_loop remote events language ?fc ?cases 0 [] ?st2) = alerts ?st2"
    by (rule runCode_loop_closed [where n = "length ?cases"])
       (simp_all add: setResults_def setIsRunning_def)
  show ?thesis
    unfolding run using loop
    by (simp add: setResults_def setIsRunning_def)
qed

subsection \<open>The loop of the second version\<close>

lemma runCode_loop_p0_done:
  "\<not> i < length cases \<Longrightarrow> runCode_loop_p0 remote events language fullCode cases i rs st = st"
  by (simp add: runCode_loop_p0.simps)

lemma runCode_loop_p0_step:
  assumes "i < length cases"
  shows "runCode_loop_p0 remote events language fullCode cases i rs st =
         (let r = iterationResult_p0
                    (remote (length (posted_p0 st)) (request language fullCode (cases ! i)))
                    (cases ! i) i
          in runCode_loop_p0 remote events language fullCode cases (Suc i) (rs @ [r])
               (setTestResults (\<lambda>prev. Array_set prev i r)
                  (awaiting_p0 (events i)
                     (st\<lparr>posted_p0 := posted_p0 st @
                                        [request language fullCode (cases ! i)]\<rparr>))))"
  using assms
  by (subst runCode_loop_p0.simps)
     (simp add: axios_post_p0_def request_def languageIds_eq Let_def)

lemma runCode_loop_p0_effects:
  assumes "n = length cases - i"
  shows "posted_p0 (runCode_loop_p0 remote events language fullCode cases i rs st) =
           posted_p0 st @ map (\<lambda>j. request language fullCode (cases ! j)) [i..<length cases]
       \<and> isRunning_p0 (runCode_loop_p0 remote events language fullCode cases i rs st)
           = isRunning_p0 st
       \<and> alerts_p0 (runCode_loop_p0 remote events language fullCode cases i rs st)
           = alerts_p0 st"
  using assms
proof (induction n arbitrary: i rs st)
  case 0
  then have "\<not> i < length cases" by simp
  then show ?case
    by (simp add: runCode_loop_p0_done)
next
  case (Suc n)
  then have lt: "i < length cases" by simp
  let ?r = "iterationResult_p0
              (remote (length (posted_p0 st)) (request language fullCode (cases ! i)))
              (cases ! i) i"
  let ?st = "setTestResults (\<lambda>prev. Array_set prev i ?r)
               (awaiting_p0 (events i)
                  (st\<lparr>posted_p0 := posted_p0 st @ [request language fullCode (cases ! i)]\<rparr>))"
  have step: "runCode_loop_p0 remote events language fullCode cases i rs st =
              runCode_loop_p0 remote events language fullCode cases (Suc i) (rs @ [?r]) ?st"
    by (simp add: runCode_loop_p0_step [OF lt] Let_def)
  have fields: "posted_p0 ?st = posted_p0 st @ [request language fullCode (cases ! i)]"
    "isRunning_p0 ?st = isRunning_p0 st" "alerts_p0 ?st = alerts_p0 st"
    using awaiting_p0_fields
      [of "events i"
          "st\<lparr>posted_p0 := posted_p0 st @ [request language fullCode (cases ! i)]\<rparr>"]
    by (simp_all add: setTestResults_def Let_def)
  have "n = length cases - Suc i" using Suc.prems by simp
  from Suc.IH [OF this, of "rs @ [?r]" ?st] show ?case
    unfolding step using lt by (simp add: fields upt_conv_Cons del: upt_Suc)
qed

lemma length_snapshot_p0:
  "k \<le> length cases \<Longrightarrow> length (snapshot_p0 remote n0 language fullCode cases k) = length cases"
  by (simp add: snapshot_p0_def)

lemma Array_set_snapshot_p0:
  assumes "i < length cases"
  shows "Array_set (snapshot_p0 remote n0 language fullCode cases i) i
           (resolved_p0 remote n0 language fullCode cases i) =
         snapshot_p0 remote n0 language fullCode cases (Suc i)"
proof -
  let ?A = "map (\<lambda>j. Some (resolved_p0 remote n0 language fullCode cases j)) [0..<i]"
  let ?B = "map (\<lambda>j. Some (runningSlot j)) [Suc i..<length cases]"
  have split: "snapshot_p0 remote n0 language fullCode cases i = ?A @ Some (runningSlot i) # ?B"
    using assms by (simp add: snapshot_p0_def upt_conv_Cons)
  have len: "length ?A = i" by simp
  have "(?A @ Some (runningSlot i) # ?B)[i := Some (resolved_p0 remote n0 language fullCode cases i)]
        = ?A @ Some (resolved_p0 remote n0 language fullCode cases i) # ?B"
    using list_update_length [of ?A "Some (runningSlot i)" ?B] len by simp
  moreover have "i < length (snapshot_p0 remote n0 language fullCode cases i)"
    using assms by (simp add: length_snapshot_p0)
  ultimately show ?thesis
    by (simp add: Array_set_def split) (simp add: snapshot_p0_def)
qed

lemma runCode_loop_p0_closed:
  assumes "n = length cases - i" "i \<le> length cases"
    and "length (posted_p0 st) = n0 + i"
    and "testResults st = snapshot_p0 remote n0 language fullCode cases i"
    and "\<forall>k<length cases. events k = []"
  shows "published_p0 (runCode_loop_p0 remote events language fullCode cases i rs st) =
           published_p0 st @
           map (\<lambda>k. snapshot_p0 remote n0 language fullCode cases (Suc k)) [i..<length cases]
       \<and> testResults (runCode_loop_p0 remote events language fullCode cases i rs st) =
           snapshot_p0 remote n0 language fullCode cases (length cases)"
  using assms
proof (induction n arbitrary: i rs st)
  case 0
  then have "i = length cases" by simp
  with "0.prems" show ?case
    by (simp add: runCode_loop_p0_done)
next
  case (Suc n)
  then have lt: "i < length cases" by simp
  then have quiet: "events i = []" using Suc.prems(5) by simp
  let ?r = "resolved_p0 remote n0 language fullCode cases i"
  let ?st = "st\<lparr>posted_p0 := posted_p0 st @ [request language fullCode (cases ! i)],
                testResults := snapshot_p0 remote n0 language fullCode cases (Suc i),
                published_p0 := published_p0 st @
                                [snapshot_p0 remote n0 language fullCode cases (Suc i)]\<rparr>"
  have upd: "setTestResults (\<lambda>prev. Array_set prev i ?r)
               (awaiting_p0 (events i)
                  (st\<lparr>posted_p0 := posted_p0 st @ [request language fullCode (cases ! i)]\<rparr>))
             = ?st"
    using Suc.prems(4) Array_set_snapshot_p0 [OF lt, of remote n0 language fullCode]
    by (simp add: setTestResults_def Let_def quiet awaiting_p0_Nil)
  have "runCode_loop_p0 remote events language fullCode cases i rs st =
        runCode_loop_p0 remote events language fullCode cases (Suc i) (rs @ [?r])
          (setTestResults (\<lambda>prev. Array_set prev i ?r)
             (awaiting_p0 (events i)
                (st\<lparr>posted_p0 := posted_p0 st @ [request language fullCode (cases ! i)]\<rparr>)))"
    using Suc.prems(3) by (simp add: runCode_loop_p0_step [OF lt] resolved_p0_def Let_def)
  then have step: "runCode_loop_p0 remote events language fullCode cases i rs st =
        runCode_loop_p0 remote events language fullCode cases (Suc i) (rs @ [?r]) ?st"
    by (simp only: upd)
  have ih: "published_p0 (runCode_loop_p0 remote events language fullCode cases (Suc i)
                            (rs @ [?r]) ?st) =
           published_p0 ?st @
           map (\<lambda>k. snapshot_p0 remote n0 language fullCode cases (Suc k)) [Suc i..<length cases]
       \<and> testResults (runCode_loop_p0 remote events language fullCode cases (Suc i)
                         (rs @ [?r]) ?st) =
           snapshot_p0 remote n0 language fullCode cases (length cases)"
  proof (rule Suc.IH)
    show "n = length cases - Suc i" using Suc.prems(1) by simp
    show "Suc i \<le> length cases" using lt by simp
    show "length (posted_p0 ?st) = n0 + Suc i"
      using Suc.prems(3) by simp
    show "testResults ?st = snapshot_p0 remote n0 language fullCode cases (Suc i)"
      by simp
    show "\<forall>k<length cases. events k = []" by (rule Suc.prems(5))
  qed
  show ?case
    unfolding step using ih lt
    by (simp add: upt_conv_Cons del: upt_Suc)
qed

lemma snapshot_p0_initial:
  "map Some (Array_map (\<lambda>_ index. runningSlot index) cases) =
   snapshot_p0 remote n0 language fullCode cases 0"
  by (simp add: Array_map_index snapshot_p0_def)

lemma runCode_p0_start:
  "runCode_p0 remote events code language (Some ts) st =
   setIsRunning_p0 False
     (runCode_loop_p0 remote events language (code @ js ''\<newline>'' @ testCode ts)
        (testCases ts) 0 []
        (setTestResults
           (\<lambda>_. snapshot_p0 remote (length (posted_p0 st)) language
                   (code @ js ''\<newline>'' @ testCode ts) (testCases ts) 0)
           (setIsRunning_p0 True st)))"
  by (simp add: runCode_p0_def Let_def
      snapshot_p0_initial [of _ remote "length (posted_p0 st)" language
                              "code @ js ''\<newline>'' @ testCode ts"])

lemma runCode_p0_effects:
  "posted_p0 (runCode_p0 remote events code language (Some ts) st) =
     posted_p0 st @
     map (\<lambda>j. request language (code @ js ''\<newline>'' @ testCode ts) (testCases ts ! j))
       [0..<length (testCases ts)]
 \<and> isRunning_p0 (runCode_p0 remote events code language (Some ts) st) = False
 \<and> alerts_p0 (runCode_p0 remote events code language (Some ts) st) = alerts_p0 st"
proof -
  have n: "length (testCases ts) = length (testCases ts) - 0" by simp
  show ?thesis
    unfolding runCode_p0_start
    using runCode_loop_p0_effects [OF n, of remote events language]
    by (simp add: setTestResults_def setIsRunning_p0_def Let_def)
qed

lemma runCode_p0_closed:
  assumes "undisturbed events (length (testCases ts))"
  shows "published_p0 (runCode_p0 remote events code language (Some ts) st) =
     published_p0 st @
     map (snapshot_p0 remote (length (posted_p0 st)) language
            (code @ js ''\<newline>'' @ testCode ts) (testCases ts))
       [0..<Suc (length (testCases ts))]
 \<and> testResults (runCode_p0 remote events code language (Some ts) st) =
     snapshot_p0 remote (length (posted_p0 st)) language
       (code @ js ''\<newline>'' @ testCode ts) (testCases ts) (length (testCases ts))"
proof -
  let ?fc = "code @ js ''\<newline>'' @ testCode ts"
  let ?cases = "testCases ts"
  let ?n0 = "length (posted_p0 st)"
  let ?st2 = "setTestResults (\<lambda>_. snapshot_p0 remote ?n0 language ?fc ?cases 0)
                (setIsRunning_p0 True st)"
  have q: "\<forall>k<length ?cases. events k = []"
    using assms by (simp add: undisturbed_iff)
  have loop:
    "published_p0 (runCode_loop_p0 remote events language ?fc ?cases 0 [] ?st2) =
       published_p0 ?st2 @
       map (\<lambda>k. snapshot_p0 remote ?n0 language ?fc ?cases (Suc k)) [0..<length ?cases]
     \<and> testResults (runCode_loop_p0 remote events language ?fc ?cases 0 [] ?st2) =
       snapshot_p0 remote ?n0 language ?fc ?cases (length ?cases)"
    by (rule runCode_loop_p0_closed [where n = "length ?cases"])
       (simp_all add: setTestResults_def setIsRunning_p0_def Let_def q)
  have shift: "map (snapshot_p0 remote ?n0 language ?fc ?cases) [0..<Suc (length ?cases)] =
        snapshot_p0 remote ?n0 language ?fc ?cases 0 #
        map (\<lambda>k. snapshot_p0 remote ?n0 language ?fc ?cases (Suc k)) [0..<length ?cases]"
    by (simp only: upt_conv_Cons [OF zero_less_Suc] list.map map_Suc_upt [symmetric] map_map comp_def)
  show ?thesis
    unfolding runCode_p0_start using loop
    by (simp add: setTestResults_def setIsRunning_p0_def Let_def shift del: upt_Suc)
qed

subsection \<open>Slots of the published arrays\<close>

lemma resolved_facts:
  "testNumber (resolved remote n0 language fullCode cases j) = j + 1
 \<and> status (resolved remote n0 language fullCode cases j) \<noteq> running"
  by (simp add: resolved_def iterationResult_def parseResult_def apiError_def Let_def
      split: sum.split)

lemma resolved_p0_facts:
  "testNumber (resolved_p0 remote n0 language fullCode cases j) = j + 1
 \<and> status (resolved_p0 remote n0 language fullCode cases j) \<noteq> running"
  by (simp add: resolved_p0_def iterationResult_p0_def testResult_def errorResult_def
      split: sum.split)



lemma snapshot_p0_nth:
  assumes "k \<le> length cases" "i < length cases"
  shows "snapshot_p0 remote n0 language fullCode cases k ! i =
         Some (if i < k then resolved_p0 remote n0 language fullCode cases i
               else runningSlot i)"
proof (cases "i < k")
  case True
  let ?A = "map (\<lambda>j. Some (resolved_p0 remote n0 language fullCode cases j)) [0..<k]"
  have "i < length ?A" using True by simp
  then have "snapshot_p0 remote n0 language fullCode cases k ! i = ?A ! i"
    unfolding snapshot_p0_def by (rule nth_append_left)
  then show ?thesis using True by simp
next
  case False
  let ?A = "map (\<lambda>j. Some (resolved_p0 remote n0 language fullCode cases j)) [0..<k]"
  have ge: "length ?A \<le> i" using False by simp
  have "snapshot_p0 remote n0 language fullCode cases k ! i =
        map (\<lambda>j. Some (runningSlot j)) [k..<length cases] ! (i - length ?A)"
    unfolding snapshot_p0_def using ge by (rule nth_append_right)
  then show ?thesis using False assms by simp
qed



subsection \<open>A run of the second version during which the user makes choices\<close>

lemma restless_run_p0:
  "published_p0 (runCode_p0 demo_remote restless (js ''x'') python (Some demo_suite) idle_p0) =
     [[Some (runningSlot 0), Some (runningSlot 1)],
      [Some \<lparr>testNumber = 1, status = passed, message = js ''Test Case 1 Passed'',
             res_input = Some (js ''2 3''), expected = Some (js ''5''), actual = Some (js ''5''),
             res_time = Some (js ''0.01''), res_memory = Some 3000, error = None\<rparr>],
      [None,
       Some \<lparr>testNumber = 2, status = failed, message = js ''Test Case 2 Failed - API Error'',
             res_input = None, expected = None, actual = None,
             res_time = None, res_memory = None, error = Some (js ''Network Error'')\<rparr>]]
 \<and> testResults (runCode_p0 demo_remote restless (js ''x'') python (Some demo_suite) idle_p0) =
     [None,
      Some \<lparr>testNumber = 2, status = failed, message = js ''Test Case 2 Failed - API Error'',
            res_input = None, expected = None, actual = None,
            res_time = None, res_memory = None, error = Some (js ''Network Error'')\<rparr>]"
proof -
  let ?fc = "js ''x'' @ js ''\<newline>'' @ js ''main()''"
  let ?c0 = "\<lparr>input = js ''2 3'', expectedOutput = js ''5''\<rparr>"
  let ?c1 = "\<lparr>input = js ''0 0'', expectedOutput = js ''0''\<rparr>"
  let ?cases = "[?c0, ?c1]"
  let ?r0 = "\<lparr>testNumber = 1, status = passed, message = js ''Test Case 1 Passed'',
             res_input = Some (js ''2 3''), expected = Some (js ''5''), actual = Some (js ''5''),
             res_time = Some (js ''0.01''), res_memory = Some 3000, error = None\<rparr>"
  let ?r1 = "\<lparr>testNumber = 2, status = failed, message = js ''Test Case 2 Failed - API Error'',
             res_input = None, expected = None, actual = None,
             res_time = None, res_memory = None, error = Some (js ''Network Error'')\<rparr>"
  have r0: "iterationResult_p0 (demo_remote 0 b) ?c0 0 = ?r0" for b
    by (simp add: iterationResult_p0_def demo_remote_def testResult_def truthy_def trim_def
        isWhiteSpace_def js_def Number_toString.simps)
  have r1: "iterationResult_p0 (demo_remote (Suc 0) b) ?c1 (Suc 0) = ?r1" for b
    by (simp add: iterationResult_p0_def demo_remote_def errorResult_def truthy_def
        js_def Number_toString.simps)
  have ev: "awaiting_p0 (restless k) st = st\<lparr>testResults := []\<rparr>" for k st
    by (simp add: awaiting_p0_def restless_def handleProblemChange_def
        handleLanguageChange_def)
  let ?s0 = "\<lparr>testResults = [Some (runningSlot 0), Some (runningSlot 1)], isRunning_p0 = True,
              alerts_p0 = [], posted_p0 = [],
              published_p0 = [[Some (runningSlot 0), Some (runningSlot 1)]]\<rparr>"
  have start: "runCode_p0 demo_remote restless (js ''x'') python (Some demo_suite) idle_p0 =
               setIsRunning_p0 False
                 (runCode_loop_p0 demo_remote restless python ?fc ?cases 0 [] ?s0)"
    by (simp add: runCode_p0_def demo_suite_def idle_p0_def Let_def Array_map_index
        setTestResults_def setIsRunning_p0_def)
  let ?s1 = "\<lparr>testResults = [Some ?r0], isRunning_p0 = True, alerts_p0 = [],
              posted_p0 = [request python ?fc ?c0],
              published_p0 = [[Some (runningSlot 0), Some (runningSlot 1)], [Some ?r0]]\<rparr>"
  have it0: "runCode_loop_p0 demo_remote restless python ?fc ?cases 0 [] ?s0 =
             runCode_loop_p0 demo_remote restless python ?fc ?cases (Suc 0) [?r0] ?s1"
    by (subst runCode_loop_p0_step)
       (simp_all add: Let_def r0 ev setTestResults_def Array_set_def)
  let ?s2 = "\<lparr>testResults = [None, Some ?r1], isRunning_p0 = True, alerts_p0 = [],
              posted_p0 = [request python ?fc ?c0, request python ?fc ?c1],
              published_p0 = [[Some (runningSlot 0), Some (runningSlot 1)], [Some ?r0],
                              [None, Some ?r1]]\<rparr>"
  have it1: "runCode_loop_p0 demo_remote restless python ?fc ?cases (Suc 0) [?r0] ?s1 =
             runCode_loop_p0 demo_remote restless python ?fc ?cases (Suc (Suc 0)) [?r0, ?r1] ?s2"
    by (subst runCode_loop_p0_step)
       (simp_all add: Let_def r1 ev setTestResults_def Array_set_def)
  have it2: "runCode_loop_p0 demo_remote restless python ?fc ?cases (Suc (Suc 0)) [?r0, ?r1] ?s2
             = ?s2"
    by (simp add: runCode_loop_p0_done)
  show ?thesis
    unfolding start it0 it1 it2 by (simp add: setIsRunning_p0_def)
qed

subsection \<open>Claims about whole runs\<close>

lemma undisturbed_quiet: "undisturbed quiet n"
  by (simp add: undisturbed_iff quiet_def)

text \<open>
  C3, as stated, fails in the second version, in two ways. First, the \<open>catch\<close> clause
  stores \<open>error.message || 'Unknown error'\<close>: when a call fails with an empty message,
  the error of its slot is the text \<open>Unknown error\<close> and not the failure's message.
  Second, the slot is written through an updater of the current state array, which a
  choice in a select box empties: in the run below the call for index 1 fails and the call
  for index 0 succeeds, yet slot 0 of the final state is a hole, not a result.
\<close>

theorem C3_counterexample:
  "blank_remote (length (posted_p0 idle_p0) + 0)
     \<lparr>language_id = languageIds python,
      source_code = js ''x'' @ js ''\<newline>'' @ testCode demo_suite,
      stdin = input (testCases demo_suite ! 0)\<rparr> = Inl \<lparr>err_message = Some []\<rparr>
 \<and> testResults (runCode_p0 blank_remote quiet (js ''x'') python (Some demo_suite) idle_p0) ! 0 =
     Some \<lparr>testNumber = 1, status = failed, message = js ''Test Case 1 Failed - API Error'',
           res_input = None, expected = None, actual = None,
           res_time = None, res_memory = None, error = Some (js ''Unknown error'')\<rparr>
 \<and> Some (js ''Unknown error'') \<noteq> err_message \<lparr>err_message = Some []\<rparr>
 \<and> demo_remote (length (posted_p0 idle_p0) + 1)
     \<lparr>language_id = languageIds python,
      source_code = js ''x'' @ js ''\<newline>'' @ testCode demo_suite,
      stdin = input (testCases demo_suite ! 1)\<rparr> =
     Inl \<lparr>err_message = Some (js ''Network Error'')\<rparr>
 \<and> demo_remote (length (posted_p0 idle_p0) + 0)
     \<lparr>language_id = languageIds python,
      source_code = js ''x'' @ js ''\<newline>'' @ testCode demo_suite,
      stdin = input (testCases demo_suite ! 0)\<rparr> =
     Inr \<lparr>stdout = Some (js ''5\<newline>''), stderr = None, compile_output = None,
          time = Some (js ''0.01''), memory = Some 3000\<rparr>
 \<and> testResults (runCode_p0 demo_remote restless (js ''x'') python (Some demo_suite) idle_p0) ! 0
     = None"
proof -
  have n: "length (testCases demo_suite) = 2"
    by (simp add: demo_suite_def)
  have "testResults (runCode_p0 blank_remote quiet (js ''x'') python (Some demo_suite) idle_p0) ! 0
        = snapshot_p0 blank_remote (length (posted_p0 idle_p0)) python
          (js ''x'' @ js ''\<newline>'' @ testCode demo_suite) (testCases demo_suite)
          (length (testCases demo_suite)) ! 0"
    using runCode_p0_closed
      [OF undisturbed_quiet, where ts = demo_suite and remote = blank_remote
         and code = "js ''x''" and language = python and st = idle_p0]
    by simp
  also have "\<dots> = Some (resolved_p0 blank_remote (length (posted_p0 idle_p0)) python
          (js ''x'' @ js ''\<newline>'' @ testCode demo_suite) (testCases demo_suite) 0)"
    using snapshot_p0_nth [of "length (testCases demo_suite)" "testCases demo_suite" 0]
    by (simp add: n)
  also have "\<dots> =
     Some \<lparr>testNumber = 1, status = failed, message = js ''Test Case 1 Failed - API Error'',
           res_input = None, expected = None, actual = None,
           res_time = None, res_memory = None, error = Some (js ''Unknown error'')\<rparr>"
    by (simp add: resolved_p0_def iterationResult_p0_def blank_remote_def errorResult_def
        truthy_def Number_toString.simps js_def)
  finally have a:
    "testResults (runCode_p0 blank_remote quiet (js ''x'') python (Some demo_suite) idle_p0) ! 0
     = Some \<lparr>testNumber = 1, status = failed, message = js ''Test Case 1 Failed - API Error'',
             res_input = None, expected = None, actual = None,
             res_time = None, res_memory = None, error = Some (js ''Unknown error'')\<rparr>" .
  have b: "testResults (runCode_p0 demo_remote restless (js ''x'') python (Some demo_suite)
             idle_p0) ! 0 = None"
    using restless_run_p0 by simp
  show ?thesis
    unfolding a b by (simp add: blank_remote_def demo_remote_def idle_p0_def js_def)
qed

text \<open>
  C3, amended: when the call for index \<open>i\<close> fails, slot \<open>i\<close> of the final state is the
  failed result whose message ends in \<open>Failed - API Error\<close>, with input, expected and
  actual absent, and the run goes on: a body is posted for every index, the final state has
  one slot per test case, none is running, and every index whose call succeeds holds the
  classification of its own response. In \<open>client/src/App.tsx\<close> this holds whatever the
  user does during the run, and the error of slot \<open>i\<close> is the failure's message. In the
  second version the bodies are posted whatever the user does, the rest holds for a run
  during which the user chooses no other problem or language, and the error of slot \<open>i\<close>
  is the failure's message when that is a non-empty string and the text \<open>Unknown error\<close>
  when the message is absent or empty.
\<close>

theorem C3_transport_failure_is_local:
  fixes ts :: TestSuite and remote :: service and events :: interleaving and code :: jsstring
    and language :: Language and st :: App and stp :: App_p0
  defines "N \<equiv> length (testCases ts)"
  defines "fullCode \<equiv> code @ js ''\<newline>'' @ testCode ts"
  defines "st' \<equiv> runCode remote events code language (Some ts) st"
  defines "stp' \<equiv> runCode_p0 remote events code language (Some ts) stp"
  assumes "i < N"
  shows "(remote (length (posted st) + i)
            \<lparr>language_id = LANGUAGE_IDS language, source_code = fullCode,
             stdin = input (testCases ts ! i)\<rparr> = Inl err \<longrightarrow>
          results st' ! i =
            \<lparr>testNumber = i + 1, status = failed,
             message = js ''Test Case '' @ Number_toString (i + 1) @ js '' Failed - API Error'',
             res_input = None, expected = None, actual = None,
             res_time = None, res_memory = None, error = err_message err\<rparr>)
     \<and> length (results st') = N
     \<and> (\<forall>j<N. status (results st' ! j) \<noteq> running)
     \<and> (\<forall>j<N. posted st' ! (length (posted st) + j) =
                  \<lparr>language_id = LANGUAGE_IDS language, source_code = fullCode,
                   stdin = input (testCases ts ! j)\<rparr> \<and>
                posted_p0 stp' ! (length (posted_p0 stp) + j) =
                  \<lparr>language_id = languageIds language, source_code = fullCode,
                   stdin = input (testCases ts ! j)\<rparr>)
     \<and> (\<forall>j<N. \<forall>d.
           remote (length (posted st) + j)
              \<lparr>language_id = LANGUAGE_IDS language, source_code = fullCode,
               stdin = input (testCases ts ! j)\<rparr> = Inr d \<longrightarrow>
            results st' ! j = parseResult d (testCases ts ! j) j)
     \<and> (undisturbed events N \<longrightarrow>
          (remote (length (posted_p0 stp) + i)
             \<lparr>language_id = languageIds language, source_code = fullCode,
              stdin = input (testCases ts ! i)\<rparr> = Inl err \<longrightarrow>
           testResults stp' ! i =
             Some \<lparr>testNumber = i + 1, status = failed,
                   message = js ''Test Case '' @ Number_toString (i + 1)
                               @ js '' Failed - API Error'',
                   res_input = None, expected = None, actual = None,
                   res_time = None, res_memory = None,
                   error = Some (case err_message err of
                                   None \<Rightarrow> js ''Unknown error''
                                 | Some m \<Rightarrow> if m = [] then js ''Unknown error'' else m)\<rparr>)
        \<and> length (testResults stp') = N
        \<and> (\<forall>j<N. \<exists>r. testResults stp' ! j = Some r \<and> status r \<noteq> running)
        \<and> (\<forall>j<N. \<forall>d.
              remote (length (posted_p0 stp) + j)
                 \<lparr>language_id = languageIds language, source_code = fullCode,
                  stdin = input (testCases ts ! j)\<rparr> = Inr d \<longrightarrow>
               testResults stp' ! j = Some (testResult d (testCases ts ! j) j)))"
proof -
  let ?cases = "testCases ts"
  let ?n0 = "length (posted st)"
  let ?m0 = "length (posted_p0 stp)"
  have req: "\<lparr>language_id = LANGUAGE_IDS language, source_code = fullCode,
              stdin = input (?cases ! j)\<rparr> = request language fullCode (?cases ! j)" for j
    by (simp add: request_def)
  have req0: "\<lparr>language_id = languageIds language, source_code = fullCode,
               stdin = input (?cases ! j)\<rparr> = request language fullCode (?cases ! j)" for j
    by (simp add: request_def languageIds_eq)
  have R: "results st' = map (resolved remote ?n0 language fullCode ?cases) [0..<N]"
    unfolding st'_def N_def fullCode_def
    using runCode_closed [of remote events code language ts st] by simp
  have slot: "results st' ! j = resolved remote ?n0 language fullCode ?cases j" if "j < N" for j
    using that by (simp add: R)
  have Q: "posted st' = posted st @ map (\<lambda>j. request language fullCode (?cases ! j)) [0..<N]"
    unfolding st'_def N_def fullCode_def
    using runCode_closed [of remote events code language ts st] by simp
  have Q0: "posted_p0 stp' =
            posted_p0 stp @ map (\<lambda>j. request language fullCode (?cases ! j)) [0..<N]"
    unfolding stp'_def N_def fullCode_def
    using runCode_p0_effects [of remote events code language ts stp] by simp
  have a: "remote (?n0 + i) (request language fullCode (?cases ! i)) = Inl err \<longrightarrow>
           results st' ! i =
            \<lparr>testNumber = i + 1, status = failed,
             message = js ''Test Case '' @ Number_toString (i + 1) @ js '' Failed - API Error'',
             res_input = None, expected = None, actual = None,
             res_time = None, res_memory = None, error = err_message err\<rparr>"
    using slot [OF \<open>i < N\<close>] by (simp add: resolved_def iterationResult_def apiError_def)
  have c: "length (results st') = N"
    by (simp add: R)
  have d: "\<forall>j<N. status (results st' ! j) \<noteq> running"
    using slot resolved_facts by simp
  have e: "\<forall>j<N. posted st' ! (?n0 + j) = request language fullCode (?cases ! j) \<and>
                 posted_p0 stp' ! (?m0 + j) = request language fullCode (?cases ! j)"
    by (simp add: Q Q0)
  have f: "\<forall>j<N. \<forall>d.
           remote (?n0 + j) (request language fullCode (?cases ! j)) = Inr d \<longrightarrow>
            results st' ! j = parseResult d (?cases ! j) j"
    using slot by (simp add: resolved_def iterationResult_def)
  have g: "(remote (?m0 + i) (request language fullCode (?cases ! i)) = Inl err \<longrightarrow>
           testResults stp' ! i =
             Some \<lparr>testNumber = i + 1, status = failed,
                   message = js ''Test Case '' @ Number_toString (i + 1)
                               @ js '' Failed - API Error'',
                   res_input = None, expected = None, actual = None,
                   res_time = None, res_memory = None,
                   error = Some (case err_message err of
                                   None \<Rightarrow> js ''Unknown error''
                                 | Some m \<Rightarrow> if m = [] then js ''Unknown error'' else m)\<rparr>)
        \<and> length (testResults stp') = N
        \<and> (\<forall>j<N. \<exists>r. testResults stp' ! j = Some r \<and> status r \<noteq> running)
        \<and> (\<forall>j<N. \<forall>d.
              remote (?m0 + j) (request language fullCode (?cases ! j)) = Inr d \<longrightarrow>
               testResults stp' ! j = Some (testResult d (?cases ! j) j))"
    if u: "undisturbed events N"
  proof -
    have R0: "testResults stp' = snapshot_p0 remote ?m0 language fullCode ?cases N"
      unfolding stp'_def N_def fullCode_def
      using runCode_p0_closed
        [OF u [unfolded N_def], where remote = remote and code = code and language = language
           and st = stp]
      by simp
    have slot0: "testResults stp' ! j = Some (resolved_p0 remote ?m0 language fullCode ?cases j)"
      if "j < N" for j
      using that snapshot_p0_nth [of N ?cases j remote ?m0 language fullCode]
      by (simp add: R0 N_def)
    have g1: "remote (?m0 + i) (request language fullCode (?cases ! i)) = Inl err \<longrightarrow>
           testResults stp' ! i =
             Some \<lparr>testNumber = i + 1, status = failed,
                   message = js ''Test Case '' @ Number_toString (i + 1)
                               @ js '' Failed - API Error'',
                   res_input = None, expected = None, actual = None,
                   res_time = None, res_memory = None,
                   error = Some (case err_message err of
                                   None \<Rightarrow> js ''Unknown error''
                                 | Some m \<Rightarrow> if m = [] then js ''Unknown error'' else m)\<rparr>"
      using slot0 [OF \<open>i < N\<close>]
      by (simp add: resolved_p0_def iterationResult_p0_def errorResult_def truthy_def
          split: option.split)
    have g2: "length (testResults stp') = N"
      by (simp add: R0 N_def length_snapshot_p0)
    have g3: "\<forall>j<N. \<exists>r. testResults stp' ! j = Some r \<and> status r \<noteq> running"
      using slot0 resolved_p0_facts by simp
    have g4: "\<forall>j<N. \<forall>d.
              remote (?m0 + j) (request language fullCode (?cases ! j)) = Inr d \<longrightarrow>
               testResults stp' ! j = Some (testResult d (?cases ! j) j)"
      using slot0 by (simp add: resolved_p0_def iterationResult_p0_def)
    show ?thesis
      using g1 g2 g3 g4 by blast
  qed
  show ?thesis
    unfolding req req0 using a c d e f g by blast
qed

text \<open>
  Witness for C3: in the run of the two-case suite, with a user who chooses nothing, the
  second call fails with the message \<open>Network Error\<close>. Slot 1 is the API-error result
  with that message in both versions, and slot 0 is the passed result of the first response.
\<close>

theorem C3_transport_failure_is_local_witness:
  "demo_remote 1
     \<lparr>language_id = 71, source_code = js ''x\<newline>main()'', stdin = js ''0 0''\<rparr> =
     Inl \<lparr>err_message = Some (js ''Network Error'')\<rparr>
 \<and> results (runCode demo_remote quiet (js ''x'') python (Some demo_suite) idle) ! 1 =
     \<lparr>testNumber = 2, status = failed, message = js ''Test Case 2 Failed - API Error'',
      res_input = None, expected = None, actual = None,
      res_time = None, res_memory = None, error = Some (js ''Network Error'')\<rparr>
 \<and> testResults (runCode_p0 demo_remote quiet (js ''x'') python (Some demo_suite) idle_p0) ! 1 =
     Some \<lparr>testNumber = 2, status = failed, message = js ''Test Case 2 Failed - API Error'',
           res_input = None, expected = None, actual = None,
           res_time = None, res_memory = None, error = Some (js ''Network Error'')\<rparr>
 \<and> results (runCode demo_remote quiet (js ''x'') python (Some demo_suite) idle) ! 0 =
     \<lparr>testNumber = 1, status = passed, message = js ''Test Case 1 Passed'',
      res_input = Some (js ''2 3''), expected = Some (js ''5''), actual = Some (js ''5''),
      res_time = Some (js ''0.01''), res_memory = Some 3000, error = None\<rparr>
 \<and> testResults (runCode_p0 demo_remote quiet (js ''x'') python (Some demo_suite) idle_p0) ! 0 =
     Some \<lparr>testNumber = 1, status = passed, message = js ''Test Case 1 Passed'',
           res_input = Some (js ''2 3''), expected = Some (js ''5''), actual = Some (js ''5''),
           res_time = Some (js ''0.01''), res_memory = Some 3000, error = None\<rparr>
 \<and> length (results (runCode demo_remote quiet (js ''x'') python (Some demo_suite) idle)) = 2
 \<and> length (testResults (runCode_p0 demo_remote quiet (js ''x'') python (Some demo_suite) idle_p0))
     = 2"
proof -
  have n: "length (testCases demo_suite) = Suc (Suc 0)"
    by (simp add: demo_suite_def)
  have h: "Suc 0 < length (testCases demo_suite)"
    by (simp add: n)
  have e: "length (posted idle) = 0" "length (posted_p0 idle_p0) = 0"
    by (simp_all add: idle_def idle_p0_def)
  note c = C3_transport_failure_is_local
    [where ts = demo_suite and remote = demo_remote and events = quiet and code = "js ''x''"
       and language = python
       and st = idle and stp = idle_p0 and i = "Suc 0"
       and err = "\<lparr>err_message = Some (js ''Network Error'')\<rparr>", OF h, unfolded n e]
  have p: "parseResult
             \<lparr>stdout = Some (js ''5\<newline>''), stderr = None, compile_output = None,
              time = Some (js ''0.01''), memory = Some 3000\<rparr>
             \<lparr>input = js ''2 3'', expectedOutput = js ''5''\<rparr> 0 =
           \<lparr>testNumber = 1, status = passed, message = js ''Test Case 1 Passed'',
            res_input = Some (js ''2 3''), expected = Some (js ''5''), actual = Some (js ''5''),
            res_time = Some (js ''0.01''), res_memory = Some 3000, error = None\<rparr>"
    by (simp add: parseResult_def Let_def truthy_def trim_def isWhiteSpace_def js_def
        Number_toString.simps)
  have t: "testResult
             \<lparr>stdout = Some (js ''5\<newline>''), stderr = None, compile_output = None,
              time = Some (js ''0.01''), memory = Some 3000\<rparr>
             \<lparr>input = js ''2 3'', expectedOutput = js ''5''\<rparr> 0 =
           \<lparr>testNumber = 1, status = passed, message = js ''Test Case 1 Passed'',
            res_input = Some (js ''2 3''), expected = Some (js ''5''), actual = Some (js ''5''),
            res_time = Some (js ''0.01''), res_memory = Some 3000, error = None\<rparr>"
    by (simp add: testResult_def truthy_def trim_def isWhiteSpace_def js_def
        Number_toString.simps)
  from c have
    "results (runCode demo_remote quiet (js ''x'') python (Some demo_suite) idle) ! Suc 0 =
       \<lparr>testNumber = 2, status = failed, message = js ''Test Case 2 Failed - API Error'',
        res_input = None, expected = None, actual = None,
        res_time = None, res_memory = None, error = Some (js ''Network Error'')\<rparr>
   \<and> testResults (runCode_p0 demo_remote quiet (js ''x'') python (Some demo_suite) idle_p0) ! Suc 0 =
       Some \<lparr>testNumber = 2, status = failed, message = js ''Test Case 2 Failed - API Error'',
             res_input = None, expected = None, actual = None,
             res_time = None, res_memory = None, error = Some (js ''Network Error'')\<rparr>
   \<and> results (runCode demo_remote quiet (js ''x'') python (Some demo_suite) idle) ! 0 =
       parseResult
         \<lparr>stdout = Some (js ''5\<newline>''), stderr = None, compile_output = None,
          time = Some (js ''0.01''), memory = Some 3000\<rparr>
         \<lparr>input = js ''2 3'', expectedOutput = js ''5''\<rparr> 0
   \<and> testResults (runCode_p0 demo_remote quiet (js ''x'') python (Some demo_suite) idle_p0) ! 0 =
       Some (testResult
         \<lparr>stdout = Some (js ''5\<newline>''), stderr = None, compile_output = None,
          time = Some (js ''0.01''), memory = Some 3000\<rparr>
         \<lparr>input = js ''2 3'', expectedOutput = js ''5''\<rparr> 0)
   \<and> length (results (runCode demo_remote quiet (js ''x'') python (Some demo_suite) idle)) = 2
   \<and> length (testResults (runCode_p0 demo_remote quiet (js ''x'') python (Some demo_suite) idle_p0))
       = 2"
    by (simp add: All_less_Suc undisturbed_quiet demo_remote_def demo_suite_def js_def
        Number_toString.simps)
  then show ?thesis
    unfolding p t by (simp add: demo_remote_def)
qed







text \<open>
  C6: when the lookup of the suite for the problem's file and the language finds nothing,
  \<open>runCode\<close> only raises the alert: nothing is posted to the judging service, and the
  results, the published snapshots and the running flag are what they were. Both versions;
  nothing is awaited on this path.
\<close>

theorem C6_no_test_suite:
  assumes "testSuite TEST_CASE_MAP testCaseFile language = None"
  shows "runCode remote events code language
           (testSuite TEST_CASE_MAP testCaseFile language) st =
           st\<lparr>alerts := alerts st @ [js ''No tests found for this language.'']\<rparr>
       \<and> posted (runCode remote events code language
              (testSuite TEST_CASE_MAP testCaseFile language) st)
           = posted st
       \<and> results (runCode remote events code language
              (testSuite TEST_CASE_MAP testCaseFile language) st)
           = results st
       \<and> published
           (runCode remote events code language
              (testSuite TEST_CASE_MAP testCaseFile language) st)
           = published st
       \<and> isRunning
           (runCode remote events code language
              (testSuite TEST_CASE_MAP testCaseFile language) st)
           = isRunning st
       \<and> runCode_p0 remote events code language
           (testSuite TEST_CASE_MAP testCaseFile language) stp =
           stp\<lparr>alerts_p0 := alerts_p0 stp @
                               [js ''Test cases not available for this language.'']\<rparr>
       \<and> posted_p0
           (runCode_p0 remote events code language
              (testSuite TEST_CASE_MAP testCaseFile language) stp)
           = posted_p0 stp
       \<and> testResults
           (runCode_p0 remote events code language
              (testSuite TEST_CASE_MAP testCaseFile language) stp)
           = testResults stp
       \<and> published_p0
           (runCode_p0 remote events code language
              (testSuite TEST_CASE_MAP testCaseFile language) stp)
           = published_p0 stp
       \<and> isRunning_p0
           (runCode_p0 remote events code language
              (testSuite TEST_CASE_MAP testCaseFile language) stp)
           = isRunning_p0 stp"
  by (simp add: assms runCode_def runCode_p0_def alert_def alert_p0_def)

text \<open>
  Witness for C6: the table has the problem but not the language C++ (and the other problem
  not at all).
\<close>

theorem C6_no_test_suite_witness:
  "testSuite demo_map (js ''sumOfTwoNumbers'') cpp = None
 \<and> testSuite demo_map (js ''multiplyNumbers'') python = None
 \<and> runCode demo_remote quiet (js ''x'') cpp (testSuite demo_map (js ''sumOfTwoNumbers'') cpp)
       idle =
     \<lparr>results = [], isRunning = False, alerts = [js ''No tests found for this language.''],
      posted = [], published = []\<rparr>
 \<and> runCode_p0 demo_remote quiet (js ''x'') cpp (testSuite demo_map (js ''sumOfTwoNumbers'') cpp)
       idle_p0 =
     \<lparr>testResults = [], isRunning_p0 = False,
      alerts_p0 = [js ''Test cases not available for this language.''],
      posted_p0 = [], published_p0 = []\<rparr>"
proof -
  have h: "testSuite demo_map (js ''sumOfTwoNumbers'') cpp = None"
    by (simp add: testSuite_def demo_map_def)
  have h2: "testSuite demo_map (js ''multiplyNumbers'') python = None"
    by (simp add: testSuite_def demo_map_def js_def)
  note c = C6_no_test_suite
    [OF h, where remote = demo_remote and events = quiet and code = "js ''x''" and st = idle
       and stp = idle_p0]
  have a: "runCode demo_remote quiet (js ''x'') cpp (testSuite demo_map (js ''sumOfTwoNumbers'') cpp)
             idle =
           \<lparr>results = [], isRunning = False, alerts = [js ''No tests found for this language.''],
            posted = [], published = []\<rparr>"
    using c by (simp add: idle_def)
  have b: "runCode_p0 demo_remote quiet (js ''x'') cpp
             (testSuite demo_map (js ''sumOfTwoNumbers'') cpp) idle_p0 =
           \<lparr>testResults = [], isRunning_p0 = False,
            alerts_p0 = [js ''Test cases not available for this language.''],
            posted_p0 = [], published_p0 = []\<rparr>"
    using c by (simp add: idle_p0_def)
  show ?thesis
    using h h2 a b by (intro conjI)
qed

text \<open>
  C7: whatever the user does meanwhile, the bodies posted by a run are, in order, one per
  test case, each with the language's id from the fixed table (71, 63, 54), the source
  \<open>code\<close>, a line feed and the harness \<open>testCode\<close>, and the input of its test case
  as stdin. The source text is the same in every body of the run. Both versions.
\<close>

theorem C7_one_program_for_every_submission:
  "posted (runCode remote events code language (Some ts) st) =
     posted st @
     map (\<lambda>tc. \<lparr>language_id = LANGUAGE_IDS language,
                 source_code = code @ js ''\<newline>'' @ testCode ts,
                 stdin = input tc\<rparr>) (testCases ts)
 \<and> posted_p0 (runCode_p0 remote events code language (Some ts) stp) =
     posted_p0 stp @
     map (\<lambda>tc. \<lparr>language_id = languageIds language,
                 source_code = code @ js ''\<newline>'' @ testCode ts,
                 stdin = input tc\<rparr>) (testCases ts)
 \<and> LANGUAGE_IDS python = 71 \<and> LANGUAGE_IDS javascript = 63 \<and> LANGUAGE_IDS cpp = 54
 \<and> languageIds python = 71 \<and> languageIds javascript = 63 \<and> languageIds cpp = 54"
proof -
  have nth: "map (\<lambda>j. request language fc (cases ! j)) [0..<length cases] =
             map (request language fc) cases" for fc cases
  proof -
    have "map (\<lambda>j. request language fc (cases ! j)) [0..<length cases] =
          map (request language fc) (map ((!) cases) [0..<length cases])"
      by (simp only: map_map comp_def)
    then show ?thesis
      by (simp only: map_nth)
  qed
  have a: "posted (runCode remote events code language (Some ts) st) =
      posted st @ map (request language (code @ js ''\<newline>'' @ testCode ts)) (testCases ts)"
    using runCode_closed [of remote events code language ts st] by (simp only: nth)
  have b: "posted_p0 (runCode_p0 remote events code language (Some ts) stp) =
      posted_p0 stp @ map (request language (code @ js ''\<newline>'' @ testCode ts)) (testCases ts)"
    using runCode_p0_effects [of remote events code language ts stp] by (simp only: nth)
  have r: "request language fc = (\<lambda>tc. \<lparr>language_id = LANGUAGE_IDS language,
                 source_code = fc, stdin = input tc\<rparr>)" for fc
    by (rule ext) (simp add: request_def)
  show ?thesis
    unfolding a b r
    by (simp add: languageIds_def LANGUAGE_IDS_def)
qed

text \<open>
  Witness for C7: the two bodies posted for the two-case suite.
\<close>

theorem C7_one_program_for_every_submission_witness:
  "posted (runCode demo_remote quiet (js ''def f(): pass'') python (Some demo_suite) idle) =
     [\<lparr>language_id = 71, source_code = js ''def f(): pass\<newline>main()'', stdin = js ''2 3''\<rparr>,
      \<lparr>language_id = 71, source_code = js ''def f(): pass\<newline>main()'', stdin = js ''0 0''\<rparr>]
 \<and> posted_p0
     (runCode_p0 demo_remote quiet (js ''def f(): pass'') python (Some demo_suite) idle_p0) =
     [\<lparr>language_id = 71, source_code = js ''def f(): pass\<newline>main()'', stdin = js ''2 3''\<rparr>,
      \<lparr>language_id = 71, source_code = js ''def f(): pass\<newline>main()'', stdin = js ''0 0''\<rparr>]"
proof -
  note c = C7_one_program_for_every_submission
    [where remote = demo_remote and events = quiet and code = "js ''def f(): pass''"
       and language = python and ts = demo_suite and st = idle and stp = idle_p0]
  have fc: "js ''def f(): pass'' @ js ''\<newline>'' @ testCode demo_suite =
            js ''def f(): pass\<newline>main()''"
    by (simp add: demo_suite_def js_def)
  have cases: "testCases demo_suite =
     [\<lparr>input = js ''2 3'', expectedOutput = js ''5''\<rparr>,
      \<lparr>input = js ''0 0'', expectedOutput = js ''0''\<rparr>]"
    by (simp add: demo_suite_def)
  have ids: "LANGUAGE_IDS python = 71" "languageIds python = 71"
    by (simp_all add: LANGUAGE_IDS_def languageIds_def)
  have i: "posted idle = []" "posted_p0 idle_p0 = []"
    by (simp_all add: idle_def idle_p0_def)
  show ?thesis
    using c unfolding fc cases ids i by simp
qed

end
